theory Spec2Isabelle
  imports Main "HOL-Library.Word"
begin

unbundle bit_operations_syntax

section \<open>Machine types\<close>

text \<open>
  The driver is C for a Linux kernel. \<open>u8\<close>, \<open>u16\<close>, \<open>u32\<close> and \<open>u64\<close> are words of that
  width; \<open>unsigned int\<close> is 32 bits and \<open>unsigned long long\<close> is 64 bits. A C \<open>int\<close> is a
  32-bit word read with \<open>sint\<close>: the kernel is compiled so that signed arithmetic wraps,
  and a conversion of an \<open>int\<close> to \<open>unsigned long long\<close> extends the sign (\<open>scast\<close>).
\<close>

type_synonym u8 = "8 word"
type_synonym u16 = "16 word"
type_synonym u32 = "32 word"
type_synonym u64 = "64 word"
type_synonym s32 = "32 word"

section \<open>Data model of the configuration negotiation\<close>

text \<open>
  \<open>enum vc4_hdmi_output_format\<close>. The negotiation only ever proposes the first two.
\<close>

datatype vc4_hdmi_output_format =
  VC4_HDMI_OUTPUT_RGB
| VC4_HDMI_OUTPUT_YUV422
| VC4_HDMI_OUTPUT_YUV444
| VC4_HDMI_OUTPUT_YUV420

datatype drm_mode_status = MODE_OK | MODE_CLOCK_HIGH | MODE_H_ILLEGAL

datatype errno = EINVAL | ENODEV | ETIMEDOUT

text \<open>
  \<open>struct drm_display_mode\<close>, the fields that the modelled functions read or write.
  \<open>clock\<close> is an \<open>int\<close> in kHz; the horizontal timings are \<open>u16\<close>. The flag word is only
  ever tested against single flags, and the header that numbers the flags is not part
  of the sources, so the test \<open>mode->flags & DRM_MODE_FLAG_DBLCLK\<close> is the field
  \<open>flag_dblclk\<close>.
\<close>

record drm_display_mode =
  clock :: s32
  hdisplay :: u16
  hsync_start :: u16
  hsync_end :: u16
  htotal :: u16
  flag_dblclk :: bool

text \<open>
  \<open>struct drm_display_info\<close>, the sink capability snapshot. As for the mode flags, each
  test of a capability bit mask against one named bit is a boolean field:
  \<open>color_formats & DRM_COLOR_FORMAT_RGB444\<close> is \<open>color_format_rgb444\<close>,
  \<open>edid_hdmi_rgb444_dc_modes & DRM_EDID_HDMI_DC_30\<close> is \<open>rgb444_dc_30\<close>, and so on.
  \<open>max_tmds_clock\<close> is an \<open>int\<close> in kHz. \<open>scdc_supported\<close> and
  \<open>scrambling_supported\<close> are \<open>hdmi.scdc.supported\<close> and
  \<open>hdmi.scdc.scrambling.supported\<close>.
\<close>

record drm_display_info =
  is_hdmi :: bool
  color_format_rgb444 :: bool
  color_format_ycbcr422 :: bool
  color_format_ycbcr444 :: bool
  rgb444_dc_30 :: bool
  rgb444_dc_36 :: bool
  ycbcr444_dc_30 :: bool
  ycbcr444_dc_36 :: bool
  max_tmds_clock :: s32
  scdc_supported :: bool
  scrambling_supported :: bool

text \<open>\<open>struct vc4_hdmi_variant\<close>: the two fields the negotiation reads.\<close>

record vc4_hdmi_variant =
  max_pixel_clock :: u64
  unsupported_odd_h_timings :: bool

text \<open>
  \<open>struct vc4_hdmi\<close> as the negotiation sees it: the variant, the connector's display
  information and the two policy flags.
\<close>

record vc4_hdmi =
  variant :: vc4_hdmi_variant
  display_info :: drm_display_info
  disable_4kp60 :: bool
  disable_wifi_frequencies :: bool

text \<open>
  \<open>struct vc4_hdmi_connector_state\<close>, with \<open>base.max_bpc\<close> of the embedded
  \<open>struct drm_connector_state\<close> (a \<open>u8\<close>).
\<close>

record vc4_hdmi_connector_state =
  max_bpc :: u8
  tmds_char_rate :: u64
  output_bpc :: u32
  output_format :: vc4_hdmi_output_format

section \<open>Configuration negotiation\<close>

definition HDMI_14_MAX_TMDS_CLK :: u64 where
  "HDMI_14_MAX_TMDS_CLK = 340 * 1000 * 1000"

text \<open>
  \<open>vc4_hdmi_sink_supports_format_bpc\<close>. \<open>drm_match_cea_mode\<close> lives in the EDID library,
  outside the sources: it is the parameter \<open>match_cea\<close>, giving the VIC of a mode.
\<close>

definition vc4_hdmi_sink_supports_format_bpc ::
  "(drm_display_mode \<Rightarrow> u8) \<Rightarrow> drm_display_info \<Rightarrow> drm_display_mode \<Rightarrow>
     vc4_hdmi_output_format \<Rightarrow> u32 \<Rightarrow> bool" where
  "vc4_hdmi_sink_supports_format_bpc match_cea info m format bpc =
    (let vic = match_cea m in
     if vic = 1 \<and> bpc \<noteq> 8 then False
     else if \<not> is_hdmi info \<and> (format \<noteq> VC4_HDMI_OUTPUT_RGB \<or> bpc \<noteq> 8) then False
     else (case format of
        VC4_HDMI_OUTPUT_RGB \<Rightarrow>
          if \<not> color_format_rgb444 info then False
          else if bpc = 10 \<and> \<not> rgb444_dc_30 info then False
          else if bpc = 12 \<and> \<not> rgb444_dc_36 info then False
          else True
      | VC4_HDMI_OUTPUT_YUV422 \<Rightarrow>
          if \<not> color_format_ycbcr422 info then False
          else if bpc \<noteq> 12 then False
          else True
      | VC4_HDMI_OUTPUT_YUV444 \<Rightarrow>
          if \<not> color_format_ycbcr444 info then False
          else if bpc = 10 \<and> \<not> ycbcr444_dc_30 info then False
          else if bpc = 12 \<and> \<not> ycbcr444_dc_36 info then False
          else True
      | VC4_HDMI_OUTPUT_YUV420 \<Rightarrow> False))"

text \<open>
  \<open>vc4_hdmi_encoder_clock_valid\<close>. The product \<open>info->max_tmds_clock * 1000\<close> is an
  \<open>int\<close> product and is then converted for the comparison with the 64-bit clock.
\<close>

definition vc4_hdmi_encoder_clock_valid :: "vc4_hdmi \<Rightarrow> u64 \<Rightarrow> drm_mode_status" where
  "vc4_hdmi_encoder_clock_valid h clk =
    (let info = display_info h in
     if clk > max_pixel_clock (variant h) then MODE_CLOCK_HIGH
     else if disable_4kp60 h \<and> clk > HDMI_14_MAX_TMDS_CLK then MODE_CLOCK_HIGH
     else if max_tmds_clock info \<noteq> 0 \<and> clk > scast (max_tmds_clock info * 1000)
       then MODE_CLOCK_HIGH
     else MODE_OK)"

text \<open>
  \<open>vc4_hdmi_encoder_compute_mode_clock\<close>: all arithmetic is 64-bit unsigned, after the
  conversion of the \<open>int\<close> clock.
\<close>

definition vc4_hdmi_encoder_compute_mode_clock ::
  "drm_display_mode \<Rightarrow> u32 \<Rightarrow> vc4_hdmi_output_format \<Rightarrow> u64" where
  "vc4_hdmi_encoder_compute_mode_clock m bpc fmt =
    (let clk = scast (clock m) * 1000;
         clk = (if flag_dblclk m then clk * 2 else clk);
         bpc = (if fmt = VC4_HDMI_OUTPUT_YUV422 then 8 else bpc);
         clk = clk * ucast bpc
     in clk div 8)"

text \<open>
  \<open>vc4_hdmi_encoder_compute_clock\<close>, \<open>vc4_hdmi_encoder_compute_format\<close>. They return an
  \<open>int\<close> and write the connector state through a pointer; a failing call writes nothing,
  so the result is either the error or the updated state.
\<close>

definition vc4_hdmi_encoder_compute_clock ::
  "vc4_hdmi \<Rightarrow> vc4_hdmi_connector_state \<Rightarrow> drm_display_mode \<Rightarrow> u32 \<Rightarrow>
     vc4_hdmi_output_format \<Rightarrow> errno + vc4_hdmi_connector_state" where
  "vc4_hdmi_encoder_compute_clock h st m bpc fmt =
    (let clk = vc4_hdmi_encoder_compute_mode_clock m bpc fmt in
     if vc4_hdmi_encoder_clock_valid h clk \<noteq> MODE_OK then Inl EINVAL
     else Inr (st\<lparr>tmds_char_rate := clk\<rparr>))"

definition vc4_hdmi_encoder_compute_format ::
  "(drm_display_mode \<Rightarrow> u8) \<Rightarrow> vc4_hdmi \<Rightarrow> vc4_hdmi_connector_state \<Rightarrow>
     drm_display_mode \<Rightarrow> u32 \<Rightarrow> errno + vc4_hdmi_connector_state" where
  "vc4_hdmi_encoder_compute_format match_cea h st m bpc =
    (let info = display_info h;
         try_format = (\<lambda>format.
           if vc4_hdmi_sink_supports_format_bpc match_cea info m format bpc
           then (case vc4_hdmi_encoder_compute_clock h st m bpc format of
                   Inr st' \<Rightarrow> Some (st'\<lparr>output_format := format\<rparr>)
                 | Inl e \<Rightarrow> None)
           else None)
     in case try_format VC4_HDMI_OUTPUT_RGB of
          Some st' \<Rightarrow> Inr st'
        | None \<Rightarrow>
           (case try_format VC4_HDMI_OUTPUT_YUV422 of
              Some st' \<Rightarrow> Inr st'
            | None \<Rightarrow> Inl EINVAL))"

text \<open>
  The loop of \<open>vc4_hdmi_encoder_compute_config\<close>:
  \<open>for (bpc = max_bpc; bpc >= 8; bpc -= 2)\<close> on an \<open>unsigned int\<close>, with \<open>ret\<close> carried
  from one iteration to the next and returned when the loop runs out.
\<close>

function compute_config_loop ::
  "(drm_display_mode \<Rightarrow> u8) \<Rightarrow> vc4_hdmi \<Rightarrow> vc4_hdmi_connector_state \<Rightarrow>
     drm_display_mode \<Rightarrow> errno + vc4_hdmi_connector_state \<Rightarrow> u32 \<Rightarrow>
     errno + vc4_hdmi_connector_state" where
  "compute_config_loop match_cea h st m ret bpc =
    (if bpc \<ge> 8 then
       (case vc4_hdmi_encoder_compute_format match_cea h st m bpc of
          Inl e \<Rightarrow> compute_config_loop match_cea h st m (Inl e) (bpc - 2)
        | Inr st' \<Rightarrow> Inr (st'\<lparr>output_bpc := bpc\<rparr>))
     else ret)"
  by pat_completeness auto
termination
proof (relation "measure (\<lambda>(match_cea, h, st, m, ret, bpc). unat bpc)")
  show "wf (measure (\<lambda>(match_cea, h, st, m, ret, bpc). unat bpc))"
    by simp
next
  fix match_cea :: "drm_display_mode \<Rightarrow> u8" and h :: vc4_hdmi
    and st :: vc4_hdmi_connector_state and m :: drm_display_mode
    and ret :: "errno + vc4_hdmi_connector_state" and bpc :: u32 and e :: errno
  assume "8 \<le> bpc"
  then have "2 \<le> bpc"
    by (simp add: word_le_nat_alt)
  then have "unat (bpc - 2) = unat bpc - 2"
    by (simp add: unat_sub)
  moreover from \<open>8 \<le> bpc\<close> have "8 \<le> unat bpc"
    by (simp add: word_le_nat_alt)
  ultimately show "((match_cea, h, st, m, Inl e, bpc - 2), (match_cea, h, st, m, ret, bpc))
      \<in> measure (\<lambda>(match_cea, h, st, m, ret, bpc). unat bpc)"
    by simp
qed

declare compute_config_loop.simps [simp del]

text \<open>
  \<open>vc4_hdmi_encoder_compute_config\<close>. \<open>clamp_t(unsigned int, conn_state->max_bpc, 8, 12)\<close>
  is \<open>min (max val lo) hi\<close> on the converted value. In the source \<open>ret\<close> is not
  initialised before the loop; the clamp makes the body run at least once, so the initial
  value is never returned. The model starts it at the error.
\<close>

definition clamp_t_uint :: "u32 \<Rightarrow> u32 \<Rightarrow> u32 \<Rightarrow> u32" where
  "clamp_t_uint val lo hi = min (max val lo) hi"

definition vc4_hdmi_encoder_compute_config ::
  "(drm_display_mode \<Rightarrow> u8) \<Rightarrow> vc4_hdmi \<Rightarrow> vc4_hdmi_connector_state \<Rightarrow>
     drm_display_mode \<Rightarrow> errno + vc4_hdmi_connector_state" where
  "vc4_hdmi_encoder_compute_config match_cea h st m =
    (let max_bpc = clamp_t_uint (ucast (max_bpc st)) 8 12
     in compute_config_loop match_cea h st m (Inl EINVAL) max_bpc)"

text \<open>
  \<open>struct drm_crtc_state\<close>: the adjusted mode, which the atomic check may rewrite, and the
  \<open>mode_changed\<close> flag.
\<close>

record drm_crtc_state =
  adjusted_mode :: drm_display_mode
  mode_changed :: bool

definition WIFI_2_4GHz_CH1_MIN_FREQ :: u64 where
  "WIFI_2_4GHz_CH1_MIN_FREQ = 2400000000"

definition WIFI_2_4GHz_CH1_MAX_FREQ :: u64 where
  "WIFI_2_4GHz_CH1_MAX_FREQ = 2422000000"

text \<open>
  Two blocks of \<open>vc4_hdmi_encoder_atomic_check\<close>, for a variant that cannot deal with odd
  horizontal timings. The first is the fix-up under \<open>mode->flags & DRM_MODE_FLAG_DBLCLK\<close>:
  a \<open>u16\<close> timing is promoted to \<open>int\<close> before the subtraction and the parity test, and
  the decrement is stored back into the \<open>u16\<close> field. The second is the test "whether we
  still have odd values remaining".
\<close>

definition fixup_dblclk_h_timings :: "drm_display_mode \<Rightarrow> drm_display_mode" where
  "fixup_dblclk_h_timings mode =
    (let mode = (if odd (uint (hsync_start mode) - uint (hdisplay mode))
                 then mode\<lparr>hsync_start := hsync_start mode - 1\<rparr> else mode)
     in (if odd (uint (hsync_end mode) - uint (hsync_start mode))
         then mode\<lparr>hsync_end := hsync_end mode - 1\<rparr> else mode))"

definition odd_h_timings_remaining :: "drm_display_mode \<Rightarrow> bool" where
  "odd_h_timings_remaining mode \<longleftrightarrow>
     odd (uint (hdisplay mode)) \<or> odd (uint (hsync_start mode)) \<or>
     odd (uint (hsync_end mode)) \<or> odd (uint (htotal mode))"

text \<open>
  \<open>vc4_hdmi_encoder_atomic_check\<close>. The result is the return value (\<open>None\<close> for 0), the
  CRTC state and the new connector state as the call leaves them; \<open>old_st\<close> is the old
  connector state. \<open>tmds_char_rate\<close> is initialised from \<open>mode->clock * 1000\<close>, a product
  of two \<open>int\<close>s that is converted afterwards. The early return for odd timings keeps the
  fix-ups already written to the mode.
\<close>

definition vc4_hdmi_encoder_atomic_check ::
  "(drm_display_mode \<Rightarrow> u8) \<Rightarrow> vc4_hdmi \<Rightarrow> vc4_hdmi_connector_state \<Rightarrow>
     drm_crtc_state \<Rightarrow> vc4_hdmi_connector_state \<Rightarrow>
     errno option \<times> drm_crtc_state \<times> vc4_hdmi_connector_state" where
  "vc4_hdmi_encoder_atomic_check match_cea h old_st crtc st =
    (let mode = adjusted_mode crtc;
         tmds_char_rate = (scast (clock mode * 1000) :: u64);
         mode = (if unsupported_odd_h_timings (variant h) \<and> flag_dblclk mode
                 then fixup_dblclk_h_timings mode else mode)
     in
     if unsupported_odd_h_timings (variant h) \<and> odd_h_timings_remaining mode
     then (Some EINVAL, crtc\<lparr>adjusted_mode := mode\<rparr>, st)
     else
       (let tmds_bit_rate = tmds_char_rate * 10;
            mode =
              (if disable_wifi_frequencies h \<and>
                  (tmds_bit_rate \<ge> WIFI_2_4GHz_CH1_MIN_FREQ \<and>
                   tmds_bit_rate \<le> WIFI_2_4GHz_CH1_MAX_FREQ)
               then mode\<lparr>clock := 238560\<rparr> else mode);
            crtc = crtc\<lparr>adjusted_mode := mode\<rparr>
        in case vc4_hdmi_encoder_compute_config match_cea h st mode of
             Inl e \<Rightarrow> (Some e, crtc, st)
           | Inr st' \<Rightarrow>
               (None,
                (if output_bpc st' \<noteq> output_bpc old_st \<or>
                    output_format st' \<noteq> output_format old_st
                 then crtc\<lparr>mode_changed := True\<rparr> else crtc),
                st')))"

subsection \<open>The negotiation as the specification words it\<close>

text \<open>
  The candidate bit depths: from the start value downwards in steps of 2, as long as the
  value is at least 8.
\<close>

fun spec_depths :: "nat \<Rightarrow> nat list" where
  "spec_depths n = (if 8 \<le> n then n # spec_depths (n - 2) else [])"

declare spec_depths.simps [simp del]

definition spec_clamp :: "nat \<Rightarrow> nat \<Rightarrow> nat \<Rightarrow> nat" where
  "spec_clamp x lo hi = (if x < lo then lo else if hi < x then hi else x)"

text \<open>Every depth with RGB first and YUV422 second.\<close>

definition spec_candidates :: "nat \<Rightarrow> (nat \<times> vc4_hdmi_output_format) list" where
  "spec_candidates requested_max_bpc =
     concat (map (\<lambda>bpc. [(bpc, VC4_HDMI_OUTPUT_RGB), (bpc, VC4_HDMI_OUTPUT_YUV422)])
       (spec_depths (spec_clamp requested_max_bpc 8 12)))"

text \<open>
  The rate in Hz, on unbounded naturals:
  mode clock in Hz, times 2 for a double-clock mode, times the effective depth, over 8.
\<close>

definition spec_tmds_rate :: "drm_display_mode \<Rightarrow> nat \<Rightarrow> vc4_hdmi_output_format \<Rightarrow> nat" where
  "spec_tmds_rate m bpc fmt =
     (let mode_clock_hz = nat (sint (clock m)) * 1000;
          effective_bpc = (if fmt = VC4_HDMI_OUTPUT_YUV422 then 8 else bpc)
      in mode_clock_hz * (if flag_dblclk m then 2 else 1) * effective_bpc div 8)"

text \<open>
  A candidate passes when the sink supports it and its rate is under every ceiling; both
  checks are the driver's.
\<close>

definition spec_passes ::
  "(drm_display_mode \<Rightarrow> u8) \<Rightarrow> vc4_hdmi \<Rightarrow> drm_display_mode \<Rightarrow>
     nat \<times> vc4_hdmi_output_format \<Rightarrow> bool" where
  "spec_passes match_cea h m cand =
     (case cand of (bpc, fmt) \<Rightarrow>
        vc4_hdmi_sink_supports_format_bpc match_cea (display_info h) m fmt (of_nat bpc) \<and>
        vc4_hdmi_encoder_clock_valid h (of_nat (spec_tmds_rate m bpc fmt)) = MODE_OK)"

text \<open>The first passing candidate wins; none means no valid configuration.\<close>

definition spec_negotiate ::
  "(drm_display_mode \<Rightarrow> u8) \<Rightarrow> vc4_hdmi \<Rightarrow> vc4_hdmi_connector_state \<Rightarrow>
     drm_display_mode \<Rightarrow> errno + vc4_hdmi_connector_state" where
  "spec_negotiate match_cea h st m =
     (case find (spec_passes match_cea h m) (spec_candidates (unat (max_bpc st))) of
        None \<Rightarrow> Inl EINVAL
      | Some (bpc, fmt) \<Rightarrow>
          Inr (st\<lparr>tmds_char_rate := of_nat (spec_tmds_rate m bpc fmt),
                   output_format := fmt, output_bpc := of_nat bpc\<rparr>))"

subsection \<open>Example inputs\<close>

text \<open>
  The 1080p60 CEA mode (VIC 16), a deep-colour HDMI sink, a DVI sink, the two hardware
  generations with the limits of their variant tables, and a connector state that asks
  for 12 bpc.
\<close>

definition mode_1080p60 :: drm_display_mode where
  "mode_1080p60 = \<lparr>clock = 148500, hdisplay = 1920, hsync_start = 2008, hsync_end = 2052,
     htotal = 2200, flag_dblclk = False\<rparr>"

definition sink_deep_colour :: drm_display_info where
  "sink_deep_colour = \<lparr>is_hdmi = True, color_format_rgb444 = True,
     color_format_ycbcr422 = True, color_format_ycbcr444 = False,
     rgb444_dc_30 = False, rgb444_dc_36 = True,
     ycbcr444_dc_30 = False, ycbcr444_dc_36 = False,
     max_tmds_clock = 600000, scdc_supported = True, scrambling_supported = True\<rparr>"

definition sink_dvi :: drm_display_info where
  "sink_dvi = \<lparr>is_hdmi = False, color_format_rgb444 = True,
     color_format_ycbcr422 = False, color_format_ycbcr444 = False,
     rgb444_dc_30 = False, rgb444_dc_36 = False,
     ycbcr444_dc_30 = False, ycbcr444_dc_36 = False,
     max_tmds_clock = 0, scdc_supported = False, scrambling_supported = False\<rparr>"

definition bcm2835_variant :: vc4_hdmi_variant where
  "bcm2835_variant = \<lparr>max_pixel_clock = 162000000, unsupported_odd_h_timings = False\<rparr>"

definition bcm2711_hdmi0_variant :: vc4_hdmi_variant where
  "bcm2711_hdmi0_variant = \<lparr>max_pixel_clock = 600000000, unsupported_odd_h_timings = True\<rparr>"

definition hdmi_deep_colour :: vc4_hdmi where
  "hdmi_deep_colour = \<lparr>variant = bcm2711_hdmi0_variant, display_info = sink_deep_colour,
     disable_4kp60 = False, disable_wifi_frequencies = False\<rparr>"

definition conn_state_12 :: vc4_hdmi_connector_state where
  "conn_state_12 = \<lparr>max_bpc = 12, tmds_char_rate = 0, output_bpc = 0,
     output_format = VC4_HDMI_OUTPUT_RGB\<rparr>"

lemmas example_defs =
  mode_1080p60_def sink_deep_colour_def sink_dvi_def bcm2835_variant_def
  bcm2711_hdmi0_variant_def hdmi_deep_colour_def conn_state_12_def

definition hdmi_bcm2835 :: vc4_hdmi where
  "hdmi_bcm2835 = \<lparr>variant = bcm2835_variant, display_info = sink_deep_colour,
     disable_4kp60 = False, disable_wifi_frequencies = False\<rparr>"

definition hdmi_dvi :: vc4_hdmi where
  "hdmi_dvi = \<lparr>variant = bcm2835_variant, display_info = sink_dvi,
     disable_4kp60 = False, disable_wifi_frequencies = False\<rparr>"

text \<open>
  A double-clock mode at 120,500 kHz, the 1440p60 mode at 241,500 kHz, and a BCM2711
  controller with the Wi-Fi coexistence flag set.
\<close>

definition mode_dblclk_120500 :: drm_display_mode where
  "mode_dblclk_120500 = \<lparr>clock = 120500, hdisplay = 1440, hsync_start = 1478,
     hsync_end = 1602, htotal = 1716, flag_dblclk = True\<rparr>"

definition mode_1440p60 :: drm_display_mode where
  "mode_1440p60 = \<lparr>clock = 241500, hdisplay = 2560, hsync_start = 2608,
     hsync_end = 2640, htotal = 2720, flag_dblclk = False\<rparr>"

definition hdmi_wifi :: vc4_hdmi where
  "hdmi_wifi = \<lparr>variant = bcm2711_hdmi0_variant, display_info = sink_deep_colour,
     disable_4kp60 = False, disable_wifi_frequencies = True\<rparr>"

section \<open>Registers\<close>

text \<open>
  The registers of the register file: those that the timing programmer, the scrambling
  functions, the power sequencing and the clock recovery of the audio path access through
  \<open>HDMI_READ\<close> and \<open>HDMI_WRITE\<close>. A register file maps each to its 32-bit content. The
  configuration and the status of the packet RAM are not among them: they belong to the
  state of the infoframe functions.
\<close>

datatype hdmi_reg =
  HDMI_DEEP_COLOR_CONFIG_1
| HDMI_GCP_WORD_1
| HDMI_GCP_CONFIG
| HDMI_SCRAMBLER_CTL
| HDMI_SCHEDULER_CONTROL
| HDMI_MAI_SMP
| HDMI_CRP_CFG
| HDMI_CTS_0
| HDMI_CTS_1

type_synonym hdmi_regs = "hdmi_reg \<Rightarrow> u32"

text \<open>
  \<open>BIT\<close> is the kernel's single-bit mask. \<open>VC4_MASK\<close> and \<open>VC4_SET_FIELD\<close> are macros of
  \<open>vc4_regs.h\<close>, a header that is not among the sources; they are modelled by their use in
  the driver: \<open>VC4_MASK(high, low)\<close> is the word with the bits \<open>low\<close> to \<open>high\<close> set, and
  \<open>VC4_SET_FIELD(value, FIELD)\<close> shifts the value to \<open>FIELD_SHIFT\<close> and masks it with
  \<open>FIELD_MASK\<close>.
\<close>

definition BIT :: "nat \<Rightarrow> u32" where
  "BIT n = push_bit n 1"

definition VC4_MASK :: "nat \<Rightarrow> nat \<Rightarrow> u32" where
  "VC4_MASK high low = push_bit low (- 1) AND mask (Suc high)"

definition VC4_SET_FIELD :: "u32 \<Rightarrow> nat \<Rightarrow> u32 \<Rightarrow> u32" where
  "VC4_SET_FIELD v field_shift field_mask = push_bit field_shift v AND field_mask"

section \<open>Timing programmer of the extended generation: the General Control Packet\<close>

definition VC5_HDMI_DEEP_COLOR_CONFIG_1_INIT_PACK_PHASE_SHIFT :: nat where
  "VC5_HDMI_DEEP_COLOR_CONFIG_1_INIT_PACK_PHASE_SHIFT = 8"

definition VC5_HDMI_DEEP_COLOR_CONFIG_1_INIT_PACK_PHASE_MASK :: u32 where
  "VC5_HDMI_DEEP_COLOR_CONFIG_1_INIT_PACK_PHASE_MASK = VC4_MASK 10 8"

definition VC5_HDMI_DEEP_COLOR_CONFIG_1_COLOR_DEPTH_SHIFT :: nat where
  "VC5_HDMI_DEEP_COLOR_CONFIG_1_COLOR_DEPTH_SHIFT = 0"

definition VC5_HDMI_DEEP_COLOR_CONFIG_1_COLOR_DEPTH_MASK :: u32 where
  "VC5_HDMI_DEEP_COLOR_CONFIG_1_COLOR_DEPTH_MASK = VC4_MASK 3 0"

definition VC5_HDMI_GCP_CONFIG_GCP_ENABLE :: u32 where
  "VC5_HDMI_GCP_CONFIG_GCP_ENABLE = BIT 31"

definition VC5_HDMI_GCP_WORD_1_GCP_SUBPACKET_BYTE_1_SHIFT :: nat where
  "VC5_HDMI_GCP_WORD_1_GCP_SUBPACKET_BYTE_1_SHIFT = 8"

definition VC5_HDMI_GCP_WORD_1_GCP_SUBPACKET_BYTE_1_MASK :: u32 where
  "VC5_HDMI_GCP_WORD_1_GCP_SUBPACKET_BYTE_1_MASK = VC4_MASK 15 8"

text \<open>
  \<open>vc5_hdmi_set_timings\<close>, from the \<open>switch\<close> on \<open>output_bpc\<close> to the write of
  \<open>HDMI_GCP_CONFIG\<close>: the choice of \<open>gcp\<close> (an \<open>unsigned char\<close>) and \<open>gcp_en\<close>, its override
  for YUV422, and the three read-modify-write sequences. The horizontal and vertical
  timing registers, \<open>HDMI_MISC_CONTROL\<close> and \<open>HDMI_CLOCK_STOP\<close>, which the function writes
  before and after, are other registers and are left out.
\<close>

definition vc5_hdmi_set_timings :: "vc4_hdmi_connector_state \<Rightarrow> hdmi_regs \<Rightarrow> hdmi_regs" where
  "vc5_hdmi_set_timings vc4_state regs =
    (let (gcp :: u8, gcp_en) =
           (if output_bpc vc4_state = 12 then (6, True)
            else if output_bpc vc4_state = 10 then (5, True)
            else (4, False));
         (gcp, gcp_en) =
           (if output_format vc4_state = VC4_HDMI_OUTPUT_YUV422 then (4, False)
            else (gcp, gcp_en));
         reg = regs HDMI_DEEP_COLOR_CONFIG_1;
         reg = reg AND NOT (VC5_HDMI_DEEP_COLOR_CONFIG_1_INIT_PACK_PHASE_MASK OR
                            VC5_HDMI_DEEP_COLOR_CONFIG_1_COLOR_DEPTH_MASK);
         reg = reg OR
               (VC4_SET_FIELD 2 VC5_HDMI_DEEP_COLOR_CONFIG_1_INIT_PACK_PHASE_SHIFT
                  VC5_HDMI_DEEP_COLOR_CONFIG_1_INIT_PACK_PHASE_MASK OR
                VC4_SET_FIELD (ucast gcp) VC5_HDMI_DEEP_COLOR_CONFIG_1_COLOR_DEPTH_SHIFT
                  VC5_HDMI_DEEP_COLOR_CONFIG_1_COLOR_DEPTH_MASK);
         regs = regs(HDMI_DEEP_COLOR_CONFIG_1 := reg);
         reg = regs HDMI_GCP_WORD_1;
         reg = reg AND NOT VC5_HDMI_GCP_WORD_1_GCP_SUBPACKET_BYTE_1_MASK;
         reg = reg OR
               VC4_SET_FIELD (ucast gcp) VC5_HDMI_GCP_WORD_1_GCP_SUBPACKET_BYTE_1_SHIFT
                 VC5_HDMI_GCP_WORD_1_GCP_SUBPACKET_BYTE_1_MASK;
         regs = regs(HDMI_GCP_WORD_1 := reg);
         reg = regs HDMI_GCP_CONFIG;
         reg = reg AND NOT VC5_HDMI_GCP_CONFIG_GCP_ENABLE;
         reg = reg OR (if gcp_en then VC5_HDMI_GCP_CONFIG_GCP_ENABLE else 0);
         regs = regs(HDMI_GCP_CONFIG := reg)
     in regs)"

section \<open>Scrambling\<close>

text \<open>
  What the scrambling functions do to the outside, in the order of the calls: the two
  SCDC operations on the sink (\<open>drm_scdc_set_high_tmds_clock_ratio\<close>,
  \<open>drm_scdc_set_scrambling\<close>), register writes, and the calls that queue or cancel the
  delayed work. The delay of \<open>queue_delayed_work\<close> is kept in milliseconds, the argument
  of \<open>msecs_to_jiffies\<close>.
\<close>

datatype scrambling_event =
  Scdc_set_high_tmds_clock_ratio bool
| Scdc_set_scrambling bool
| Hdmi_write hdmi_reg u32
| Queue_delayed_work nat
| Cancel_delayed_work_sync

text \<open>
  \<open>struct vc4_hdmi\<close> as the scrambling functions see it: the display information of the
  connector, the saved mode, the output depth and format copied by the mode set, the
  \<open>scdc_enabled\<close> flag, the register file, and \<open>scrambling_work\<close>. The delayed work is
  represented by the list of its pending instances, each with its delay, and by
  \<open>scrambling_work_running\<close>: whether an execution of its handler is in flight. The worker
  takes the instance off the queue before it calls the handler, so the work is not pending
  while its handler runs. \<open>scdc_scrambling_status\<close> is what the sink answers to
  \<open>drm_scdc_get_scrambling_status\<close> at this moment; \<open>events\<close> is the record of outside
  effects, oldest first.
\<close>

record vc4_hdmi_scrambler =
  scr_display_info :: drm_display_info
  saved_adjusted_mode :: drm_display_mode
  hdmi_output_bpc :: u32
  hdmi_output_format :: vc4_hdmi_output_format
  scdc_enabled :: bool
  hw_regs :: hdmi_regs
  scrambling_work :: "nat list"
  scrambling_work_running :: bool
  scdc_scrambling_status :: bool
  events :: "scrambling_event list"

definition VC5_HDMI_SCRAMBLER_CTL_ENABLE :: u32 where
  "VC5_HDMI_SCRAMBLER_CTL_ENABLE = BIT 0"

definition SCRAMBLING_POLLING_DELAY_MS :: nat where
  "SCRAMBLING_POLLING_DELAY_MS = 1000"

text \<open>
  The workqueue interface of the kernel is outside the sources. Modelled by its
  contract: \<open>queue_delayed_work\<close> queues the work unless it is already pending, and
  \<open>delayed_work_pending\<close> tells whether it is pending; neither looks at an execution in
  flight.
\<close>

definition queue_delayed_work :: "nat \<Rightarrow> vc4_hdmi_scrambler \<Rightarrow> vc4_hdmi_scrambler" where
  "queue_delayed_work delay_ms s =
     s\<lparr>scrambling_work := (if scrambling_work s = [] then [delay_ms] else scrambling_work s),
       events := events s @ [Queue_delayed_work delay_ms]\<rparr>"

definition delayed_work_pending :: "vc4_hdmi_scrambler \<Rightarrow> bool" where
  "delayed_work_pending s \<longleftrightarrow> scrambling_work s \<noteq> []"

definition scdc_call :: "scrambling_event \<Rightarrow> vc4_hdmi_scrambler \<Rightarrow> vc4_hdmi_scrambler" where
  "scdc_call e s = s\<lparr>events := events s @ [e]\<rparr>"

definition drm_scdc_get_scrambling_status :: "vc4_hdmi_scrambler \<Rightarrow> bool" where
  "drm_scdc_get_scrambling_status s = scdc_scrambling_status s"

text \<open>\<open>HDMI_WRITE\<close> on the scrambler state: the register file changes and the write is recorded.\<close>

definition scr_hdmi_write :: "hdmi_reg \<Rightarrow> u32 \<Rightarrow> vc4_hdmi_scrambler \<Rightarrow> vc4_hdmi_scrambler" where
  "scr_hdmi_write r v s =
     s\<lparr>hw_regs := (hw_regs s)(r := v), events := events s @ [Hdmi_write r v]\<rparr>"

text \<open>\<open>vc4_hdmi_mode_needs_scrambling\<close> and \<open>vc4_hdmi_supports_scrambling\<close>.\<close>

definition vc4_hdmi_mode_needs_scrambling ::
  "drm_display_mode \<Rightarrow> u32 \<Rightarrow> vc4_hdmi_output_format \<Rightarrow> bool" where
  "vc4_hdmi_mode_needs_scrambling m bpc fmt =
     (let clk = vc4_hdmi_encoder_compute_mode_clock m bpc fmt
      in clk > HDMI_14_MAX_TMDS_CLK)"

definition vc4_hdmi_supports_scrambling :: "vc4_hdmi_scrambler \<Rightarrow> bool" where
  "vc4_hdmi_supports_scrambling s =
     (let display = scr_display_info s in
      if \<not> is_hdmi display then False
      else if \<not> scdc_supported display \<or> \<not> scrambling_supported display then False
      else True)"

text \<open>\<open>vc4_hdmi_enable_scrambling\<close>.\<close>

definition vc4_hdmi_enable_scrambling :: "vc4_hdmi_scrambler \<Rightarrow> vc4_hdmi_scrambler" where
  "vc4_hdmi_enable_scrambling s =
    (if \<not> vc4_hdmi_supports_scrambling s then s
     else if \<not> vc4_hdmi_mode_needs_scrambling (saved_adjusted_mode s)
                (hdmi_output_bpc s) (hdmi_output_format s) then s
     else
       (let s = scdc_call (Scdc_set_high_tmds_clock_ratio True) s;
            s = scdc_call (Scdc_set_scrambling True) s;
            s = scr_hdmi_write HDMI_SCRAMBLER_CTL
                  (hw_regs s HDMI_SCRAMBLER_CTL OR VC5_HDMI_SCRAMBLER_CTL_ENABLE) s;
            s = s\<lparr>scdc_enabled := True\<rparr>
        in queue_delayed_work SCRAMBLING_POLLING_DELAY_MS s))"

text \<open>
  \<open>vc4_hdmi_scrambling_wq\<close>, the handler of the delayed work. It takes no lock.
\<close>

definition vc4_hdmi_scrambling_wq :: "vc4_hdmi_scrambler \<Rightarrow> vc4_hdmi_scrambler" where
  "vc4_hdmi_scrambling_wq s =
    (if drm_scdc_get_scrambling_status s then s
     else
       (let s = scdc_call (Scdc_set_high_tmds_clock_ratio True) s;
            s = scdc_call (Scdc_set_scrambling True) s
        in queue_delayed_work SCRAMBLING_POLLING_DELAY_MS s))"


definition scrambling_work_finish :: "vc4_hdmi_scrambler \<Rightarrow> vc4_hdmi_scrambler" where
  "scrambling_work_finish s = (vc4_hdmi_scrambling_wq s)\<lparr>scrambling_work_running := False\<rparr>"

text \<open>
  \<open>cancel_delayed_work_sync\<close>, by its contract: it returns once an execution in flight has
  run to its end, and on return the work is neither pending nor running, also when the
  handler has tried to queue it again in the meantime.
\<close>

definition cancel_delayed_work_sync :: "vc4_hdmi_scrambler \<Rightarrow> vc4_hdmi_scrambler" where
  "cancel_delayed_work_sync s =
     (let s = (if scrambling_work_running s then scrambling_work_finish s else s)
      in s\<lparr>scrambling_work := [], events := events s @ [Cancel_delayed_work_sync]\<rparr>)"

text \<open>\<open>vc4_hdmi_disable_scrambling\<close>.\<close>

definition vc4_hdmi_disable_scrambling :: "vc4_hdmi_scrambler \<Rightarrow> vc4_hdmi_scrambler" where
  "vc4_hdmi_disable_scrambling s =
    (if \<not> scdc_enabled s then s
     else
       (let s = s\<lparr>scdc_enabled := False\<rparr>;
            s = (if delayed_work_pending s then cancel_delayed_work_sync s else s);
            s = scr_hdmi_write HDMI_SCRAMBLER_CTL
                  (hw_regs s HDMI_SCRAMBLER_CTL AND NOT VC5_HDMI_SCRAMBLER_CTL_ENABLE) s;
            s = scdc_call (Scdc_set_scrambling False) s
        in scdc_call (Scdc_set_high_tmds_clock_ratio False) s))"


text \<open>
  The 2160p60 CEA mode at 594,000 kHz, and two fresh scrambler states after probe, one
  with that mode and one with 1080p60, both on the deep-colour HDMI sink at 8 bpc RGB,
  with a sink that reports scrambling off.
\<close>

definition mode_2160p60 :: drm_display_mode where
  "mode_2160p60 = \<lparr>clock = 594000, hdisplay = 3840, hsync_start = 4016, hsync_end = 4104,
     htotal = 4400, flag_dblclk = False\<rparr>"

definition scrambler_2160p60 :: vc4_hdmi_scrambler where
  "scrambler_2160p60 = \<lparr>scr_display_info = sink_deep_colour,
     saved_adjusted_mode = mode_2160p60, hdmi_output_bpc = 8,
     hdmi_output_format = VC4_HDMI_OUTPUT_RGB, scdc_enabled = False,
     hw_regs = (\<lambda>r. 0), scrambling_work = [], scrambling_work_running = False,
     scdc_scrambling_status = False, events = []\<rparr>"

definition scrambler_1080p60 :: vc4_hdmi_scrambler where
  "scrambler_1080p60 = \<lparr>scr_display_info = sink_deep_colour,
     saved_adjusted_mode = mode_1080p60, hdmi_output_bpc = 8,
     hdmi_output_format = VC4_HDMI_OUTPUT_RGB, scdc_enabled = False,
     hw_regs = (\<lambda>r. 0), scrambling_work = [], scrambling_work_running = False,
     scdc_scrambling_status = False, events = []\<rparr>"





section \<open>Power sequencing before the CRTC is configured\<close>

text \<open>
  Constants of \<open>vc4_regs.h\<close> and \<open>vc4_hdmi_regs.h\<close> that the functions below use. The two
  headers are not among the sources, so the constants are parameters: a value of this
  record gives each of them.
\<close>

record vc4_regs_h =
  VC4_HDMI_SCHEDULER_CONTROL_MANUAL_FORMAT :: u32
  VC4_HDMI_SCHEDULER_CONTROL_IGNORE_VSYNC_PREDICTS :: u32
  VC4_HDMI_CRP_CFG_EXTERNAL_CTS_EN :: u32
  VC4_HDMI_CRP_CFG_N_SHIFT :: nat
  VC4_HDMI_CRP_CFG_N_MASK :: u32
  VC4_HD_MAI_SMP_N_SHIFT :: nat
  VC4_HD_MAI_SMP_N_MASK :: u32
  VC4_HD_MAI_SMP_M_SHIFT :: nat
  VC4_HD_MAI_SMP_M_MASK :: u32

datatype clk_id = Hsm_clock | Pixel_clock | Pixel_bvb_clock

text \<open>
  The calls that \<open>vc4_hdmi_encoder_pre_crtc_configure\<close> makes, with their arguments: the
  clock framework, runtime power management, the CEC divider update, the variant's PHY
  initialisation and timing programmer, the write of the scheduler control register, and
  the error log.
\<close>

datatype power_event =
  Clk_set_min_rate clk_id u64
| Pm_runtime_resume_and_get
| Clk_set_rate clk_id u64
| Clk_prepare_enable clk_id
| Cec_update_clk_div
| Phy_init
| Scheduler_control_write u32
| Set_timings
| Clk_disable_unprepare clk_id
| Pm_runtime_put
| Drm_error string

text \<open>
  The return values of the six calls that can fail, as the clock framework and the power
  management give them to this run.
\<close>

record power_results =
  hsm_set_min_rate_ret :: int
  pm_resume_and_get_ret :: int
  pixel_set_rate_ret :: int
  pixel_prepare_enable_ret :: int
  bvb_set_min_rate_ret :: int
  bvb_prepare_enable_ret :: int

text \<open>Which of the two optional hooks the variant provides.\<close>

record vc4_hdmi_variant_hooks =
  has_phy_init :: bool
  has_set_timings :: bool

text \<open>
  The resources the sequence holds: the usage count of the power domain, the enable count
  of each clock, the scheduler control register, and the calls made, oldest first. A
  successful \<open>pm_runtime_resume_and_get\<close> takes one reference and a failed one takes none;
  a successful \<open>clk_prepare_enable\<close> raises the enable count and a failed one does not.
\<close>

record power_state =
  pm_usage :: int
  clk_enabled :: "clk_id \<Rightarrow> int"
  scheduler_control :: u32
  power_events :: "power_event list"

definition power_call :: "power_event \<Rightarrow> power_state \<Rightarrow> power_state" where
  "power_call e s = s\<lparr>power_events := power_events s @ [e]\<rparr>"

text \<open>The labels \<open>err_put_runtime_pm\<close> and \<open>err_disable_pixel_clock\<close>; the second falls through to the first.\<close>

definition err_put_runtime_pm :: "power_state \<Rightarrow> power_state" where
  "err_put_runtime_pm s = power_call Pm_runtime_put (s\<lparr>pm_usage := pm_usage s - 1\<rparr>)"

definition err_disable_pixel_clock :: "power_state \<Rightarrow> power_state" where
  "err_disable_pixel_clock s =
     err_put_runtime_pm
       (power_call (Clk_disable_unprepare Pixel_clock)
          (s\<lparr>clk_enabled := (clk_enabled s)(Pixel_clock := clk_enabled s Pixel_clock - 1)\<rparr>))"

text \<open>
  \<open>vc4_hdmi_encoder_pre_crtc_configure\<close>. The local \<open>tmds_char_rate\<close> (here \<open>tmds_rate\<close>)
  is read from the connector state into an \<open>unsigned long\<close>, 64 bits on the 64-bit kernel
  modelled here. The function returns nothing; what a run did is in the state.
\<close>

definition vc4_hdmi_encoder_pre_crtc_configure ::
  "vc4_regs_h \<Rightarrow> vc4_hdmi_variant_hooks \<Rightarrow> power_results \<Rightarrow> u64 \<Rightarrow>
     power_state \<Rightarrow> power_state" where
  "vc4_hdmi_encoder_pre_crtc_configure k hooks res tmds_rate s =
    (let hsm_rate = max 120000000 ((tmds_rate div 100) * 101);
         s = power_call (Clk_set_min_rate Hsm_clock hsm_rate) s
     in
     if hsm_set_min_rate_ret res \<noteq> 0
     then power_call (Drm_error ''Failed to set HSM clock rate'') s
     else
     (let s = power_call Pm_runtime_resume_and_get s in
      if pm_resume_and_get_ret res < 0
      then power_call (Drm_error ''Failed to retain power domain'') s
      else
      (let s = s\<lparr>pm_usage := pm_usage s + 1\<rparr>;
           s = power_call (Clk_set_rate Pixel_clock tmds_rate) s
       in
       if pixel_set_rate_ret res \<noteq> 0
       then err_put_runtime_pm (power_call (Drm_error ''Failed to set pixel clock rate'') s)
       else
       (let s = power_call (Clk_prepare_enable Pixel_clock) s in
        if pixel_prepare_enable_ret res \<noteq> 0
        then err_put_runtime_pm (power_call (Drm_error ''Failed to turn on pixel clock'') s)
        else
        (let s = s\<lparr>clk_enabled := (clk_enabled s)(Pixel_clock := clk_enabled s Pixel_clock + 1)\<rparr>;
             s = power_call Cec_update_clk_div s;
             bvb_rate = (if tmds_rate > 297000000 then 300000000
                         else if tmds_rate > 148500000 then 150000000
                         else 75000000);
             s = power_call (Clk_set_min_rate Pixel_bvb_clock bvb_rate) s
         in
         if bvb_set_min_rate_ret res \<noteq> 0
         then err_disable_pixel_clock
                (power_call (Drm_error ''Failed to set pixel bvb clock rate'') s)
         else
         (let s = power_call (Clk_prepare_enable Pixel_bvb_clock) s in
          if bvb_prepare_enable_ret res \<noteq> 0
          then err_disable_pixel_clock
                 (power_call (Drm_error ''Failed to turn on pixel bvb clock'') s)
          else
          (let s = s\<lparr>clk_enabled :=
                      (clk_enabled s)(Pixel_bvb_clock := clk_enabled s Pixel_bvb_clock + 1)\<rparr>;
               s = (if has_phy_init hooks then power_call Phy_init s else s);
               v = scheduler_control s OR
                   VC4_HDMI_SCHEDULER_CONTROL_MANUAL_FORMAT k OR
                   VC4_HDMI_SCHEDULER_CONTROL_IGNORE_VSYNC_PREDICTS k;
               s = power_call (Scheduler_control_write v) (s\<lparr>scheduler_control := v\<rparr>);
               s = (if has_set_timings hooks then power_call Set_timings s else s)
           in s)))))))"

text \<open>
  An instance of the header constants with the values of the mainline headers, a variant
  with both hooks, the results of a run in which every call succeeds and of a run in which
  enabling the byte clock fails, and the state before the sequence.
\<close>

definition example_regs_h :: vc4_regs_h where
  "example_regs_h = \<lparr>
     VC4_HDMI_SCHEDULER_CONTROL_MANUAL_FORMAT = BIT 15,
     VC4_HDMI_SCHEDULER_CONTROL_IGNORE_VSYNC_PREDICTS = BIT 5,
     VC4_HDMI_CRP_CFG_EXTERNAL_CTS_EN = BIT 24,
     VC4_HDMI_CRP_CFG_N_SHIFT = 0,
     VC4_HDMI_CRP_CFG_N_MASK = VC4_MASK 19 0,
     VC4_HD_MAI_SMP_N_SHIFT = 8,
     VC4_HD_MAI_SMP_N_MASK = VC4_MASK 31 8,
     VC4_HD_MAI_SMP_M_SHIFT = 0,
     VC4_HD_MAI_SMP_M_MASK = VC4_MASK 7 0\<rparr>"

definition hooks_all :: vc4_hdmi_variant_hooks where
  "hooks_all = \<lparr>has_phy_init = True, has_set_timings = True\<rparr>"

definition results_ok :: power_results where
  "results_ok = \<lparr>hsm_set_min_rate_ret = 0, pm_resume_and_get_ret = 0,
     pixel_set_rate_ret = 0, pixel_prepare_enable_ret = 0,
     bvb_set_min_rate_ret = 0, bvb_prepare_enable_ret = 0\<rparr>"

definition results_bvb_enable_fails :: power_results where
  "results_bvb_enable_fails = \<lparr>hsm_set_min_rate_ret = 0, pm_resume_and_get_ret = 0,
     pixel_set_rate_ret = 0, pixel_prepare_enable_ret = 0,
     bvb_set_min_rate_ret = 0, bvb_prepare_enable_ret = - 22\<rparr>"

definition power_initial :: power_state where
  "power_initial = \<lparr>pm_usage = 0, clk_enabled = (\<lambda>c. 0), scheduler_control = 0,
     power_events = []\<rparr>"

section \<open>Infoframe packets\<close>

text \<open>
  What \<open>vc4_hdmi_write_infoframe\<close> does to the outside, in order: the warning of
  \<open>WARN_ONCE\<close>, writes of \<open>HDMI_RAM_PACKET_CONFIG\<close>, the two polls of the packet status with
  the packet and the timeout, the \<open>writel\<close> calls on the packet RAM with the register offset
  and the value, and the error log.
\<close>

datatype infoframe_event =
  Warn_once string
| Write_ram_packet_config u32
| Wait_for_packet_idle u32 nat
| Wait_for_packet_active u32 nat
| Writel u32 u32
| Infoframe_error string

text \<open>
  The state: the content of \<open>HDMI_RAM_PACKET_CONFIG\<close>, whether the warning has been given
  before, the time in the units of the poll timeout, and the events, oldest first.
  \<open>HDMI_RAM_PACKET_STATUS\<close> belongs to the hardware: what a read returns at a given time
  is a parameter of the functions, \<open>status\<close>.
\<close>

record infoframe_hw =
  ram_packet_config :: u32
  warned_once :: bool
  time_now :: nat
  infoframe_events :: "infoframe_event list"

definition infoframe_event :: "infoframe_event \<Rightarrow> infoframe_hw \<Rightarrow> infoframe_hw" where
  "infoframe_event e s = s\<lparr>infoframe_events := infoframe_events s @ [e]\<rparr>"

text \<open>
  Modelled from the spec: the macro \<open>wait_for\<close> is declared in a driver header that is not
  among the sources. \<open>wait_for(COND, MS)\<close> waits up to \<open>MS\<close> time units for the condition:
  it returns 0 as soon as the condition holds and a timeout error when it still does not
  hold after \<open>MS\<close> units. The result is the time at which the wait ends and the return
  value.
\<close>

fun wait_for :: "(nat \<Rightarrow> bool) \<Rightarrow> nat \<Rightarrow> nat \<Rightarrow> nat \<times> errno option" where
  "wait_for cond t 0 = (if cond t then (t, None) else (t, Some ETIMEDOUT))"
| "wait_for cond t (Suc ms) = (if cond t then (t, None) else wait_for cond (Suc t) ms)"

text \<open>
  Three more constants of the missing headers: the enable bit of the packet RAM, the
  stride of a packet in the RAM, and the offset of the first packet register in the
  register table of the variant.
\<close>

record infoframe_regs_h =
  VC4_HDMI_RAM_PACKET_ENABLE :: u32
  VC4_HDMI_PACKET_STRIDE :: u32
  HDMI_RAM_PACKET_START_offset :: u32

text \<open>
  \<open>vc4_hdmi_stop_packet\<close>. \<open>BIT(packet_id)\<close> is taken in the 32 bits of the register.
\<close>

definition vc4_hdmi_stop_packet ::
  "(nat \<Rightarrow> u32) \<Rightarrow> u32 \<Rightarrow> bool \<Rightarrow> infoframe_hw \<Rightarrow> errno option \<times> infoframe_hw" where
  "vc4_hdmi_stop_packet status type poll s =
    (let packet_id = type - 0x80;
         v = ram_packet_config s AND NOT (BIT (unat packet_id));
         s = infoframe_event (Write_ram_packet_config v) (s\<lparr>ram_packet_config := v\<rparr>)
     in if \<not> poll then (None, s)
        else
          (let (t, ret) = wait_for (\<lambda>t. status t AND BIT (unat packet_id) = 0) (time_now s) 100
           in (ret, infoframe_event (Wait_for_packet_idle packet_id 100) (s\<lparr>time_now := t\<rparr>))))"

text \<open>
  The first loop of \<open>vc4_hdmi_write_infoframe\<close>: seven bytes of the buffer go into two
  registers, three into the first and four into the second, and \<open>packet_reg\<close> advances by
  8. A read past the end of the buffer has no defined result: \<open>None\<close>.
\<close>

function write_payload ::
  "u8 list \<Rightarrow> nat \<Rightarrow> nat \<Rightarrow> u32 \<Rightarrow> infoframe_hw \<Rightarrow> (u32 \<times> infoframe_hw) option" where
  "write_payload buffer len i packet_reg s =
    (if i < len then
       (if i + 6 < length buffer then
          (let s = infoframe_event
                     (Writel packet_reg
                        (push_bit 0 (ucast (buffer ! (i + 0))) OR
                         push_bit 8 (ucast (buffer ! (i + 1))) OR
                         push_bit 16 (ucast (buffer ! (i + 2))))) s;
               packet_reg = packet_reg + 4;
               s = infoframe_event
                     (Writel packet_reg
                        (push_bit 0 (ucast (buffer ! (i + 3))) OR
                         push_bit 8 (ucast (buffer ! (i + 4))) OR
                         push_bit 16 (ucast (buffer ! (i + 5))) OR
                         push_bit 24 (ucast (buffer ! (i + 6))))) s;
               packet_reg = packet_reg + 4
           in write_payload buffer len (i + 7) packet_reg s)
        else None)
     else Some (packet_reg, s))"
  by pat_completeness auto
termination
  by (relation "measure (\<lambda>(buffer, len, i, packet_reg, s). len - i)") auto

declare write_payload.simps [simp del]

text \<open>
  The second loop, which clears the remainder of the packet:
  \<open>for (; packet_reg < packet_reg_next; packet_reg += 4)\<close> on \<open>u32\<close>. Where the addition
  wraps around the loop need not end; a run that does not end is \<open>None\<close>.
\<close>

partial_function (option) clear_remainder ::
  "u32 \<Rightarrow> u32 \<Rightarrow> infoframe_hw \<Rightarrow> infoframe_hw option" where
  "clear_remainder packet_reg_next packet_reg s =
    (if packet_reg < packet_reg_next
     then clear_remainder packet_reg_next (packet_reg + 4) (infoframe_event (Writel packet_reg 0) s)
     else Some s)"

text \<open>
  \<open>vc4_hdmi_write_infoframe\<close>. \<open>type\<close> is \<open>frame->any.type\<close>. \<open>hdmi_infoframe_pack\<close> belongs
  to the HDMI library, outside the sources: its outcome for the frame is the parameter
  \<open>packed\<close>, \<open>None\<close> for a negative return value and otherwise the bytes it has put at the
  start of the buffer, their number being the return value. The buffer has
  \<open>VC4_HDMI_PACKET_STRIDE\<close> bytes and starts out as zeros. The function returns nothing;
  the result is the state it leaves, or \<open>None\<close> when there is none.
\<close>

definition vc4_hdmi_write_infoframe ::
  "infoframe_regs_h \<Rightarrow> (nat \<Rightarrow> u32) \<Rightarrow> u32 \<Rightarrow> u8 list option \<Rightarrow> infoframe_hw \<Rightarrow>
     infoframe_hw option" where
  "vc4_hdmi_write_infoframe k status type packed s =
    (let packet_id = type - 0x80;
         packet_reg = HDMI_RAM_PACKET_START_offset k + VC4_HDMI_PACKET_STRIDE k * packet_id;
         packet_reg_next =
           HDMI_RAM_PACKET_START_offset k + VC4_HDMI_PACKET_STRIDE k * (packet_id + 1);
         s = (if ram_packet_config s AND VC4_HDMI_RAM_PACKET_ENABLE k = 0 \<and> \<not> warned_once s
              then infoframe_event (Warn_once ''Packet RAM has to be on to store the packet.'')
                     (s\<lparr>warned_once := True\<rparr>)
              else s)
     in case packed of
          None \<Rightarrow> Some s
        | Some bytes \<Rightarrow>
            (let size = unat (VC4_HDMI_PACKET_STRIDE k);
                 buffer = take size (bytes @ replicate size 0);
                 len = length bytes;
                 (ret, s) = vc4_hdmi_stop_packet status type True s
             in if ret \<noteq> None
                then Some (infoframe_event
                             (Infoframe_error ''Failed to wait for infoframe to go idle'') s)
                else
                  (case write_payload buffer len 0 packet_reg s of
                     None \<Rightarrow> None
                   | Some (packet_reg, s) \<Rightarrow>
                      (case clear_remainder packet_reg_next packet_reg s of
                         None \<Rightarrow> None
                       | Some s \<Rightarrow>
                          (let v = ram_packet_config s OR BIT (unat packet_id);
                               s = infoframe_event (Write_ram_packet_config v)
                                     (s\<lparr>ram_packet_config := v\<rparr>);
                               (t, ret) = wait_for (\<lambda>t. status t AND BIT (unat packet_id) \<noteq> 0)
                                            (time_now s) 100;
                               s = infoframe_event (Wait_for_packet_active packet_id 100)
                                     (s\<lparr>time_now := t\<rparr>)
                           in if ret \<noteq> None
                              then Some (infoframe_event
                                     (Infoframe_error ''Failed to wait for infoframe to start'') s)
                              else Some s)))))"

subsection \<open>The write sequence in the words of the specification\<close>

text \<open>
  The two registers of a pair hold seven bytes of the buffer: three in the low register,
  four in the high one. The payload is \<open>pairs\<close> such pairs at consecutive 8-byte steps;
  the zero fill is one zero word per 4-byte step from where the payload ended up to the
  start of the next slot.
\<close>

definition low_word :: "u8 list \<Rightarrow> nat \<Rightarrow> u32" where
  "low_word buffer i =
     push_bit 0 (ucast (buffer ! (i + 0))) OR push_bit 8 (ucast (buffer ! (i + 1))) OR
     push_bit 16 (ucast (buffer ! (i + 2)))"

definition high_word :: "u8 list \<Rightarrow> nat \<Rightarrow> u32" where
  "high_word buffer i =
     push_bit 0 (ucast (buffer ! (i + 3))) OR push_bit 8 (ucast (buffer ! (i + 4))) OR
     push_bit 16 (ucast (buffer ! (i + 5))) OR push_bit 24 (ucast (buffer ! (i + 6)))"

definition spec_payload_writes :: "u8 list \<Rightarrow> nat \<Rightarrow> nat \<Rightarrow> u32 \<Rightarrow> infoframe_event list" where
  "spec_payload_writes buffer i pairs packet_reg =
     concat (map (\<lambda>j. [Writel (packet_reg + 8 * of_nat j) (low_word buffer (i + 7 * j)),
                         Writel (packet_reg + 8 * of_nat j + 4) (high_word buffer (i + 7 * j))])
               [0..<pairs])"

definition spec_zero_fill :: "u32 \<Rightarrow> u32 \<Rightarrow> infoframe_event list" where
  "spec_zero_fill packet_reg packet_reg_next =
     map (\<lambda>j. Writel (packet_reg + 4 * of_nat j) 0)
       [0..<(unat packet_reg_next - unat packet_reg + 3) div 4]"

text \<open>
  Example inputs: the audio slot (type 0x84, slot 4) with the packet RAM on, a status
  register whose slot bit clears at time 2 and asserts again at time 5, and a packed
  14-byte audio infoframe.
\<close>

definition example_infoframe_regs_h :: infoframe_regs_h where
  "example_infoframe_regs_h = \<lparr>VC4_HDMI_RAM_PACKET_ENABLE = BIT 16,
     VC4_HDMI_PACKET_STRIDE = 0x24, HDMI_RAM_PACKET_START_offset = 0x400\<rparr>"

definition infoframe_hw_enabled :: infoframe_hw where
  "infoframe_hw_enabled = \<lparr>ram_packet_config = BIT 16 OR BIT 4, warned_once = False,
     time_now = 0, infoframe_events = []\<rparr>"

definition status_idle_then_active :: "nat \<Rightarrow> u32" where
  "status_idle_then_active t = (if t < 2 then BIT 4 else if t < 5 then 0 else BIT 4)"

definition audio_infoframe_packed :: "u8 list" where
  "audio_infoframe_packed = [0x84, 0x01, 0x0A, 0x70, 0x01, 0, 0, 0, 0, 0, 0, 0, 0, 0]"

text \<open>
  The state in which the write of that frame to slot 4 leaves \<open>infoframe_hw_enabled\<close>, with
  that status register.
\<close>

definition infoframe_hw_audio_written :: infoframe_hw where
  "infoframe_hw_audio_written = \<lparr>ram_packet_config = 0x10010, warned_once = False,
     time_now = 5,
     infoframe_events =
       [Write_ram_packet_config 0x10000, Wait_for_packet_idle 4 100,
        Writel 0x490 0x0A0184, Writel 0x494 0x00000170,
        Writel 0x498 0, Writel 0x49C 0,
        Writel 0x4A0 0, Writel 0x4A4 0, Writel 0x4A8 0, Writel 0x4AC 0, Writel 0x4B0 0,
        Write_ram_packet_config 0x10010, Wait_for_packet_active 4 100]\<rparr>"

section \<open>Audio clock recovery\<close>

text \<open>
  \<open>vc4_hdmi_audio_set_mai_clock\<close>. \<open>rational_best_approximation\<close> is a function of the
  kernel library, outside the sources; it is the parameter \<open>rba\<close>, which takes the two
  numbers and the two bounds and returns the pair that the library stores through its two
  pointers. \<open>audio_clock_rate\<close> is the result of \<open>clk_get_rate\<close>, stored into a \<open>u32\<close>.
\<close>

definition vc4_hdmi_audio_set_mai_clock ::
  "vc4_regs_h \<Rightarrow> (u64 \<Rightarrow> u64 \<Rightarrow> u64 \<Rightarrow> u64 \<Rightarrow> u64 \<times> u64) \<Rightarrow> u64 \<Rightarrow> u32 \<Rightarrow>
     hdmi_regs \<Rightarrow> hdmi_regs" where
  "vc4_hdmi_audio_set_mai_clock k rba audio_clock_rate samplerate regs =
    (let hsm_clock = (ucast audio_clock_rate :: u32);
         (n, m) = rba (ucast hsm_clock) (ucast samplerate)
                    (ucast (drop_bit (VC4_HD_MAI_SMP_N_SHIFT k) (VC4_HD_MAI_SMP_N_MASK k)))
                    (ucast (drop_bit (VC4_HD_MAI_SMP_M_SHIFT k) (VC4_HD_MAI_SMP_M_MASK k) + 1))
     in regs(HDMI_MAI_SMP :=
          VC4_SET_FIELD (ucast n) (VC4_HD_MAI_SMP_N_SHIFT k) (VC4_HD_MAI_SMP_N_MASK k) OR
          VC4_SET_FIELD (ucast (m - 1)) (VC4_HD_MAI_SMP_M_SHIFT k) (VC4_HD_MAI_SMP_M_MASK k)))"

text \<open>
  \<open>vc4_hdmi_set_n_cts\<close>. \<open>n\<close> is computed on \<open>unsigned int\<close>; the \<open>int\<close> product
  \<open>mode->clock * 1000\<close> is converted to \<open>u64\<close> and multiplied by \<open>n\<close>; \<open>do_div\<close> divides by
  the \<open>unsigned int\<close> \<open>128 * samplerate\<close>; the quotient is stored into the \<open>u32\<close> \<open>cts\<close>. A
  division by zero does not return: it is the result \<open>None\<close>.
\<close>

definition vc4_hdmi_set_n_cts ::
  "vc4_regs_h \<Rightarrow> drm_display_mode \<Rightarrow> u32 \<Rightarrow> hdmi_regs \<Rightarrow> hdmi_regs option" where
  "vc4_hdmi_set_n_cts k mode samplerate regs =
    (let n = (128 * samplerate div 1000 :: u32);
         tmp = (scast (clock mode * 1000) :: u64) * ucast n;
         base = (128 * samplerate :: u32)
     in if base = 0 then None
        else
          (let tmp = tmp div ucast base;
               cts = (ucast tmp :: u32);
               regs = regs(HDMI_CRP_CFG :=
                        VC4_HDMI_CRP_CFG_EXTERNAL_CTS_EN k OR
                        VC4_SET_FIELD n (VC4_HDMI_CRP_CFG_N_SHIFT k) (VC4_HDMI_CRP_CFG_N_MASK k));
               regs = regs(HDMI_CTS_0 := cts);
               regs = regs(HDMI_CTS_1 := cts)
           in Some regs))"

text \<open>\<open>vc4_hdmi_audio_can_stream\<close>.\<close>

definition vc4_hdmi_audio_can_stream :: "drm_display_info \<Rightarrow> bool" where
  "vc4_hdmi_audio_can_stream display = (if \<not> is_hdmi display then False else True)"

text \<open>
  \<open>vc4_hdmi_set_audio_infoframe\<close>. The frame is the copy of \<open>audio.infoframe\<close>: its type
  and what \<open>hdmi_infoframe_pack\<close> makes of it are the parameters \<open>type\<close> and \<open>packed\<close> of
  \<open>vc4_hdmi_write_infoframe\<close>.
\<close>

definition vc4_hdmi_set_audio_infoframe ::
  "infoframe_regs_h \<Rightarrow> (nat \<Rightarrow> u32) \<Rightarrow> bool \<Rightarrow> u32 \<Rightarrow> u8 list option \<Rightarrow> infoframe_hw \<Rightarrow>
     infoframe_hw option" where
  "vc4_hdmi_set_audio_infoframe ik status packet_ram_enabled type packed hw =
    (if packet_ram_enabled then vc4_hdmi_write_infoframe ik status type packed hw
     else Some hw)"

text \<open>
  \<open>vc4_hdmi_audio_prepare\<close>: the refusal on a sink that is not HDMI, the MAI clock, the N
  and CTS values, and the audio infoframe, which is the \<open>cea\<close> member of the parameters
  (\<open>cea_type\<close>, \<open>cea_packed\<close>). The writes in between go to the MAI control, format,
  threshold, configuration and channel map registers and to the audio packet
  configuration; none of them is a register of the register file, and they are left out.
  The state is the register file together with the state of the infoframe functions. The
  result is \<open>None\<close> when the call does not return, the error when it refuses, and the state
  it leaves when it returns 0.
\<close>

definition vc4_hdmi_audio_prepare ::
  "vc4_regs_h \<Rightarrow> infoframe_regs_h \<Rightarrow> (u64 \<Rightarrow> u64 \<Rightarrow> u64 \<Rightarrow> u64 \<Rightarrow> u64 \<times> u64) \<Rightarrow>
     (nat \<Rightarrow> u32) \<Rightarrow> drm_display_info \<Rightarrow> u64 \<Rightarrow> drm_display_mode \<Rightarrow> u32 \<Rightarrow>
     bool \<Rightarrow> u32 \<Rightarrow> u8 list option \<Rightarrow> hdmi_regs \<times> infoframe_hw \<Rightarrow>
     (errno + hdmi_regs \<times> infoframe_hw) option" where
  "vc4_hdmi_audio_prepare k ik rba status display audio_clock_rate mode sample_rate
     packet_ram_enabled cea_type cea_packed st =
    (if \<not> vc4_hdmi_audio_can_stream display then Some (Inl EINVAL)
     else
       (let (regs, hw) = st;
            regs = vc4_hdmi_audio_set_mai_clock k rba audio_clock_rate sample_rate regs
        in case vc4_hdmi_set_n_cts k mode sample_rate regs of
             None \<Rightarrow> None
           | Some regs \<Rightarrow>
              (case vc4_hdmi_set_audio_infoframe ik status packet_ram_enabled
                      cea_type cea_packed hw of
                 None \<Rightarrow> None
               | Some hw \<Rightarrow> Some (Inr (regs, hw)))))"

text \<open>
  Modelled from the spec: \<open>rational_best_approximation\<close> (\<open>lib/math/rational.c\<close>) is not
  among the sources. The specification calls its result the "rational best-approximation"
  of the two given numbers "bounded within fixed field-width limits": a fraction within
  the bounds that is at least as close to the given ratio as every fraction within the
  bounds. The distances are compared after multiplying out the denominators.
\<close>

definition spec_best_rational_approximation ::
  "nat \<Rightarrow> nat \<Rightarrow> nat \<Rightarrow> nat \<Rightarrow> nat \<times> nat \<Rightarrow> bool" where
  "spec_best_rational_approximation num den max_n max_d nd =
     (case nd of (n, d) \<Rightarrow>
        n \<le> max_n \<and> 1 \<le> d \<and> d \<le> max_d \<and>
        (\<forall>n' \<in> {0..max_n}. \<forall>d' \<in> {1..max_d}.
           \<bar>int num * int d - int n * int den\<bar> * int d' \<le>
           \<bar>int num * int d' - int n' * int den\<bar> * int d))"

text \<open>
  The answer of the library for a 216 MHz clock and 48 kHz: the ratio is exactly 4500.
\<close>

definition rba_216mhz_48khz :: "u64 \<Rightarrow> u64 \<Rightarrow> u64 \<Rightarrow> u64 \<Rightarrow> u64 \<times> u64" where
  "rba_216mhz_48khz given_numerator given_denominator max_numerator max_denominator = (4500, 1)"

section \<open>Word arithmetic used below\<close>

lemma scast_nonneg: "0 \<le> sint (c::s32) \<Longrightarrow> (scast c :: u64) = of_nat (nat (sint c))"
proof -
  assume a: "0 \<le> sint c"
  have "(scast c :: u64) = word_of_int (sint c)" by (rule scast_eq)
  also have "\<dots> = word_of_int (int (nat (sint c)))" using a by simp
  also have "\<dots> = of_nat (nat (sint c))" by (simp only: of_int_of_nat_eq)
  finally show ?thesis .
qed

lemma sint_bound32: "sint (c::s32) < 2147483648"
  using sint_lt[of c] by simp

lemma unat_of_nat_u64: "n < 18446744073709551616 \<Longrightarrow> unat (of_nat n :: u64) = n"
  by (simp add: unat_of_nat)

lemma unat_mult_u64:
  "unat a * unat b < 18446744073709551616 \<Longrightarrow> unat (a * b :: u64) = unat a * unat b"
  using unat_mult_lem[of a b] by simp

lemma unat_scast_nonneg:
  assumes "0 \<le> sint (c::s32)"
  shows "unat (scast c :: u64) = nat (sint c)"
proof -
  have "nat (sint c) < 2147483648" using sint_bound32[of c] assms by simp
  then have "nat (sint c) < 18446744073709551616" by simp
  then show ?thesis
    unfolding scast_nonneg[OF assms] by (rule unat_of_nat_u64)
qed

lemma unat_ucast_u32_u64: "unat (ucast (b::u32) :: u64) = unat b"
proof -
  have "unat b < 2 ^ 32" using unsigned_less[of b] by simp
  then have "take_bit 64 (unat b) = unat b" by (simp add: take_bit_nat_eq_self)
  then show ?thesis by (simp add: unsigned_ucast_eq)
qed

lemma unat_ucast_u8_u32: "unat (ucast (x::u8) :: u32) = unat x"
proof -
  have "unat x < 2 ^ 8" using unsigned_less[of x] by simp
  then have "take_bit 32 (unat x) = unat x" by (simp add: take_bit_nat_eq_self)
  then show ?thesis by (simp add: unsigned_ucast_eq)
qed

section \<open>The negotiation follows the specified search\<close>

text \<open>
  For a mode whose clock is not negative, no step of the 64-bit rate computation wraps
  and the result is the specified rate.
\<close>

lemma mode_clock_unat:
  assumes "0 \<le> sint (clock m)" "bpc \<le> 12"
  shows "unat (vc4_hdmi_encoder_compute_mode_clock m bpc fmt) =
     (nat (sint (clock m)) * 1000) * (if flag_dblclk m then 2 else 1) *
       (if fmt = VC4_HDMI_OUTPUT_YUV422 then 8 else unat bpc) div 8"
proof -
  define k where "k = nat (sint (clock m))"
  define d :: nat where "d = (if flag_dblclk m then 2 else 1)"
  define e :: nat where "e = (if fmt = VC4_HDMI_OUTPUT_YUV422 then 8 else unat bpc)"
  define c0 :: u64 where "c0 = scast (clock m) * 1000"
  define c1 :: u64 where "c1 = (if flag_dblclk m then c0 * 2 else c0)"
  define b1 :: u32 where "b1 = (if fmt = VC4_HDMI_OUTPUT_YUV422 then 8 else bpc)"
  have k: "k < 2147483648" using sint_bound32[of "clock m"] assms(1) by (simp add: k_def)
  have b: "unat bpc \<le> 12" using assms(2) by (simp add: word_le_nat_alt)
  have e: "e \<le> 12" using b by (simp add: e_def)
  have sc: "unat (scast (clock m) :: u64) = k"
    unfolding k_def using assms(1) by (rule unat_scast_nonneg)
  have u0: "unat c0 = k * 1000"
    unfolding c0_def using k sc by (simp add: unat_mult_u64)
  have u1: "unat c1 = k * 1000 * d"
    unfolding c1_def d_def using k u0 by (simp add: unat_mult_u64)
  have A: "k * 1000 * d \<le> 4294967296000" using k
    by (simp add: d_def)
  have B: "k * 1000 * d * e \<le> 4294967296000 * 12"
    using mult_le_mono[OF A e] .
  have ub: "unat (ucast b1 :: u64) = e"
    unfolding b1_def e_def by (simp add: unat_ucast_u32_u64)
  have u2: "unat (c1 * ucast b1) = k * 1000 * d * e"
    using B u1 ub by (simp add: unat_mult_u64)
  have "vc4_hdmi_encoder_compute_mode_clock m bpc fmt = (c1 * ucast b1) div 8"
    unfolding vc4_hdmi_encoder_compute_mode_clock_def Let_def c1_def c0_def b1_def ..
  then have "unat (vc4_hdmi_encoder_compute_mode_clock m bpc fmt) = k * 1000 * d * e div 8"
    using u2 by (simp add: unat_div)
  then show ?thesis unfolding k_def d_def e_def .
qed

lemma mode_clock_spec:
  assumes "0 \<le> sint (clock m)" "bpc \<le> 12"
  shows "vc4_hdmi_encoder_compute_mode_clock m bpc fmt = of_nat (spec_tmds_rate m (unat bpc) fmt)"
proof -
  have "unat (vc4_hdmi_encoder_compute_mode_clock m bpc fmt) = spec_tmds_rate m (unat bpc) fmt"
    unfolding spec_tmds_rate_def Let_def by (rule mode_clock_unat[OF assms])
  then show ?thesis by (metis of_nat_unat ucast_id)
qed

lemma compute_format_spec:
  assumes "0 \<le> sint (clock m)" "bpc \<le> 12"
  shows "vc4_hdmi_encoder_compute_format mc h st m bpc =
    (case find (spec_passes mc h m)
        [(unat bpc, VC4_HDMI_OUTPUT_RGB), (unat bpc, VC4_HDMI_OUTPUT_YUV422)] of
       None \<Rightarrow> Inl EINVAL
     | Some (b, fmt) \<Rightarrow>
         Inr (st\<lparr>tmds_char_rate := of_nat (spec_tmds_rate m b fmt), output_format := fmt\<rparr>))"
  unfolding vc4_hdmi_encoder_compute_format_def vc4_hdmi_encoder_compute_clock_def Let_def
    spec_passes_def mode_clock_spec[OF assms]
  by simp

lemma loop_spec:
  "0 \<le> sint (clock m) \<Longrightarrow> bpc \<le> 12 \<Longrightarrow> compute_config_loop mc h st m ret bpc =
    (case find (spec_passes mc h m)
        (concat (map (\<lambda>b. [(b, VC4_HDMI_OUTPUT_RGB), (b, VC4_HDMI_OUTPUT_YUV422)])
           (spec_depths (unat bpc)))) of
       None \<Rightarrow> (if 8 \<le> bpc then Inl EINVAL else ret)
     | Some (b, fmt) \<Rightarrow> Inr (st\<lparr>tmds_char_rate := of_nat (spec_tmds_rate m b fmt),
                   output_format := fmt, output_bpc := of_nat b\<rparr>))"
proof (induction mc h st m ret bpc rule: compute_config_loop.induct)
  case (1 mc h st m ret bpc)
  show ?case
  proof (cases "8 \<le> bpc")
    case False
    then have "\<not> 8 \<le> unat bpc" by (simp add: word_le_nat_alt)
    then have "spec_depths (unat bpc) = []" by (simp add: spec_depths.simps)
    with False show ?thesis by (simp add: compute_config_loop.simps)
  next
    case True
    then have u8: "8 \<le> unat bpc" by (simp add: word_le_nat_alt)
    have sub: "unat (bpc - 2) = unat bpc - 2"
      using True by (simp add: unat_sub word_le_nat_alt)
    have le: "bpc - 2 \<le> 12" using 1(3) sub by (simp add: word_le_nat_alt)
    have dep: "spec_depths (unat bpc) = unat bpc # spec_depths (unat bpc - 2)"
      using u8 by (simp add: spec_depths.simps)
    let ?P = "spec_passes mc h m"
    let ?rest = "concat (map (\<lambda>b. [(b, VC4_HDMI_OUTPUT_RGB), (b, VC4_HDMI_OUTPUT_YUV422)])
        (spec_depths (unat bpc - 2)))"
    have fmt: "vc4_hdmi_encoder_compute_format mc h st m bpc =
      (case find ?P [(unat bpc, VC4_HDMI_OUTPUT_RGB), (unat bpc, VC4_HDMI_OUTPUT_YUV422)] of
         None \<Rightarrow> Inl EINVAL
       | Some (b, fmt) \<Rightarrow>
           Inr (st\<lparr>tmds_char_rate := of_nat (spec_tmds_rate m b fmt), output_format := fmt\<rparr>))"
      by (rule compute_format_spec[OF 1(2) 1(3)])
    have unfold: "compute_config_loop mc h st m ret bpc =
       (case vc4_hdmi_encoder_compute_format mc h st m bpc of
          Inl e \<Rightarrow> compute_config_loop mc h st m (Inl e) (bpc - 2)
        | Inr st' \<Rightarrow> Inr (st'\<lparr>output_bpc := bpc\<rparr>))"
      using True by (subst compute_config_loop.simps) simp
    show ?thesis
    proof (cases "find ?P [(unat bpc, VC4_HDMI_OUTPUT_RGB), (unat bpc, VC4_HDMI_OUTPUT_YUV422)]")
      case None
      then have f: "vc4_hdmi_encoder_compute_format mc h st m bpc = Inl EINVAL"
        using fmt by simp
      have IH: "compute_config_loop mc h st m (Inl EINVAL) (bpc - 2) =
        (case find ?P ?rest of
           None \<Rightarrow> (if 8 \<le> bpc - 2 then Inl EINVAL else Inl EINVAL)
         | Some (b, fmt) \<Rightarrow> Inr (st\<lparr>tmds_char_rate := of_nat (spec_tmds_rate m b fmt),
                   output_format := fmt, output_bpc := of_nat b\<rparr>))"
        using 1(1)[OF True f 1(2) le] sub by simp
      from None have "find ?P (concat (map (\<lambda>b. [(b, VC4_HDMI_OUTPUT_RGB), (b, VC4_HDMI_OUTPUT_YUV422)])
          (spec_depths (unat bpc)))) = find ?P ?rest"
        unfolding dep by (simp split: if_splits)
      then show ?thesis
        using True unfold f IH by (simp split: option.splits)
    next
      case (Some c)
      then have c: "find ?P (concat (map (\<lambda>b. [(b, VC4_HDMI_OUTPUT_RGB), (b, VC4_HDMI_OUTPUT_YUV422)])
          (spec_depths (unat bpc)))) = Some c" and fst: "fst c = unat bpc"
        unfolding dep by (auto split: if_splits)
      obtain b f where bf: "c = (b, f)" by (cases c)
      with fst have b: "b = unat bpc" by simp
      show ?thesis
        unfolding unfold c fmt Some bf b by simp
    qed
  qed
qed

lemma clamp_max_bpc:
  fixes x :: u8
  shows "clamp_t_uint (ucast x) 8 12 \<le> 12"
    and "8 \<le> clamp_t_uint (ucast x) 8 12"
    and "unat (clamp_t_uint (ucast x) 8 12) = spec_clamp (unat x) 8 12"
proof -
  show "clamp_t_uint (ucast x) 8 12 \<le> 12"
    by (simp add: clamp_t_uint_def)
  show "8 \<le> clamp_t_uint (ucast x) 8 12"
    by (simp add: clamp_t_uint_def)
  show "unat (clamp_t_uint (ucast x) 8 12) = spec_clamp (unat x) 8 12"
    using unat_ucast_u8_u32[of x]
    by (auto simp: clamp_t_uint_def spec_clamp_def min_def max_def
        word_le_nat_alt word_less_nat_alt)
qed

lemma compute_config_spec:
  assumes "0 \<le> sint (clock m)"
  shows "vc4_hdmi_encoder_compute_config mc h st m = spec_negotiate mc h st m"
proof -
  define top where "top = clamp_t_uint (ucast (max_bpc st)) 8 12"
  have le: "top \<le> 12" and ge: "8 \<le> top"
    and un: "unat top = spec_clamp (unat (max_bpc st)) 8 12"
    unfolding top_def by (rule clamp_max_bpc)+
  show ?thesis
    unfolding vc4_hdmi_encoder_compute_config_def Let_def top_def[symmetric]
      loop_spec[OF assms le] spec_negotiate_def spec_candidates_def un
    using ge by simp
qed

lemma compute_config_1080p60_deep_colour:
  assumes "clock m = 148500" "\<not> flag_dblclk m" "mc m \<noteq> 1"
    "is_hdmi (display_info h)" "color_format_rgb444 (display_info h)"
    "rgb444_dc_36 (display_info h)"
    "max_tmds_clock (display_info h) = 600000" "max_pixel_clock (variant h) = 600000000"
    "max_bpc st = 12"
  shows "vc4_hdmi_encoder_compute_config mc h st m =
     Inr (st\<lparr>tmds_char_rate := 222750000, output_format := VC4_HDMI_OUTPUT_RGB,
              output_bpc := 12\<rparr>)"
proof -
  have clk: "vc4_hdmi_encoder_compute_mode_clock m 12 VC4_HDMI_OUTPUT_RGB = 222750000"
    using assms(1,2) by (simp add: vc4_hdmi_encoder_compute_mode_clock_def)
  have valid: "vc4_hdmi_encoder_clock_valid h 222750000 = MODE_OK"
    using assms(7,8) by (simp add: vc4_hdmi_encoder_clock_valid_def HDMI_14_MAX_TMDS_CLK_def)
  have sup: "vc4_hdmi_sink_supports_format_bpc mc (display_info h) m VC4_HDMI_OUTPUT_RGB 12"
    using assms(3-6) by (simp add: vc4_hdmi_sink_supports_format_bpc_def)
  have fmt: "vc4_hdmi_encoder_compute_format mc h st m 12 =
     Inr (st\<lparr>tmds_char_rate := 222750000, output_format := VC4_HDMI_OUTPUT_RGB\<rparr>)"
    using clk valid sup
    by (simp add: vc4_hdmi_encoder_compute_format_def vc4_hdmi_encoder_compute_clock_def)
  have top: "clamp_t_uint (ucast (max_bpc st)) 8 12 = 12"
    using assms(9) by (simp add: clamp_t_uint_def)
  show ?thesis
    unfolding vc4_hdmi_encoder_compute_config_def Let_def top
    by (subst compute_config_loop.simps) (simp add: fmt)
qed

text \<open>
  Claim C1. For every mode with a non-negative clock, every sink snapshot and every
  requested maximum bpc, the driver's negotiation is the specified search: the depths
  descend from the request clamped to 8..12 in steps of 2 while they are at least 8, each
  depth tries RGB and then YUV422, the first pair that the sink supports and whose rate is
  under every ceiling is returned, and the rate written is mode clock in Hz, doubled for a
  double-clock mode, times the effective depth (8 for YUV422), over 8; no pair means
  \<open>EINVAL\<close>. For the 148,500 kHz mode without double clock, on an HDMI sink with RGB444 and
  36-bit deep colour, a 600 MHz sink and hardware limit and a request of 12, the result is
  12 bpc, RGB, 222,750,000 Hz.
\<close>

theorem negotiation_search_order_and_rate:
  "(0 \<le> sint (clock m) \<longrightarrow>
      vc4_hdmi_encoder_compute_config mc h st m = spec_negotiate mc h st m) \<and>
   (clock m' = 148500 \<and> \<not> flag_dblclk m' \<and> mc m' \<noteq> 1 \<and>
    is_hdmi (display_info h') \<and> color_format_rgb444 (display_info h') \<and>
    rgb444_dc_36 (display_info h') \<and> max_tmds_clock (display_info h') = 600000 \<and>
    max_pixel_clock (variant h') = 600000000 \<and> max_bpc st' = 12 \<longrightarrow>
      vc4_hdmi_encoder_compute_config mc h' st' m' =
        Inr (st'\<lparr>tmds_char_rate := 222750000, output_format := VC4_HDMI_OUTPUT_RGB,
                 output_bpc := 12\<rparr>))"
  using compute_config_spec compute_config_1080p60_deep_colour by blast

theorem negotiation_search_order_and_rate_witness:
  "0 \<le> sint (clock mode_1080p60) \<and>
   vc4_hdmi_encoder_compute_config (\<lambda>m. 16) hdmi_deep_colour conn_state_12 mode_1080p60 =
     spec_negotiate (\<lambda>m. 16) hdmi_deep_colour conn_state_12 mode_1080p60 \<and>
   clock mode_1080p60 = 148500 \<and> \<not> flag_dblclk mode_1080p60 \<and>
   is_hdmi (display_info hdmi_deep_colour) \<and>
   color_format_rgb444 (display_info hdmi_deep_colour) \<and>
   rgb444_dc_36 (display_info hdmi_deep_colour) \<and>
   max_tmds_clock (display_info hdmi_deep_colour) = 600000 \<and>
   max_pixel_clock (variant hdmi_deep_colour) = 600000000 \<and>
   max_bpc conn_state_12 = 12 \<and>
   vc4_hdmi_encoder_compute_config (\<lambda>m. 16) hdmi_deep_colour conn_state_12 mode_1080p60 =
     Inr \<lparr>max_bpc = 12, tmds_char_rate = 222750000, output_bpc = 12,
          output_format = VC4_HDMI_OUTPUT_RGB\<rparr>"
proof -
  note T = negotiation_search_order_and_rate
    [where m = mode_1080p60 and mc = "\<lambda>m. 16" and h = hdmi_deep_colour
       and st = conn_state_12 and m' = mode_1080p60 and h' = hdmi_deep_colour
       and st' = conn_state_12]
  have h1: "0 \<le> sint (clock mode_1080p60)"
    by (simp add: mode_1080p60_def)
  have h2: "clock mode_1080p60 = 148500 \<and> \<not> flag_dblclk mode_1080p60 \<and>
    (16 :: u8) \<noteq> 1 \<and>
    is_hdmi (display_info hdmi_deep_colour) \<and>
    color_format_rgb444 (display_info hdmi_deep_colour) \<and>
    rgb444_dc_36 (display_info hdmi_deep_colour) \<and>
    max_tmds_clock (display_info hdmi_deep_colour) = 600000 \<and>
    max_pixel_clock (variant hdmi_deep_colour) = 600000000 \<and>
    max_bpc conn_state_12 = 12"
    by (simp add: example_defs)
  from T h1 have a:
    "vc4_hdmi_encoder_compute_config (\<lambda>m. 16) hdmi_deep_colour conn_state_12 mode_1080p60 =
       spec_negotiate (\<lambda>m. 16) hdmi_deep_colour conn_state_12 mode_1080p60"
    by blast
  from T h2 have b:
    "vc4_hdmi_encoder_compute_config (\<lambda>m. 16) hdmi_deep_colour conn_state_12 mode_1080p60 =
       Inr (conn_state_12\<lparr>tmds_char_rate := 222750000,
              output_format := VC4_HDMI_OUTPUT_RGB, output_bpc := 12\<rparr>)"
    by blast
  have c: "conn_state_12\<lparr>tmds_char_rate := 222750000,
              output_format := VC4_HDMI_OUTPUT_RGB, output_bpc := 12\<rparr> =
     \<lparr>max_bpc = 12, tmds_char_rate = 222750000, output_bpc = 12,
          output_format = VC4_HDMI_OUTPUT_RGB\<rparr>"
    by (simp add: conn_state_12_def)
  show ?thesis
    using h1 h2 a b unfolding c by blast
qed

section \<open>What a successful negotiation has checked\<close>

lemma sint_mult_1000:
  assumes "0 \<le> sint (c::s32)" "sint c \<le> 2147483"
  shows "sint (c * 1000) = sint c * 1000"
proof -
  have "sint (c * 1000) = signed_take_bit 31 (sint c * sint (1000 :: s32))"
    using sint_word_mult[of c 1000] by simp
  also have "sint (1000 :: s32) = 1000" by simp
  also have "signed_take_bit 31 (sint c * 1000) = sint c * 1000"
    using assms by (intro signed_take_bit_int_eq_self) simp_all
  finally show ?thesis .
qed

lemma unat_scast_mult_1000:
  assumes "0 \<le> sint (c::s32)" "sint c \<le> 2147483"
  shows "unat (scast (c * 1000) :: u64) = nat (sint c) * 1000"
proof -
  have s: "sint (c * 1000) = sint c * 1000" by (rule sint_mult_1000[OF assms])
  then have "0 \<le> sint (c * 1000)" using assms(1) by simp
  then have "unat (scast (c * 1000) :: u64) = nat (sint (c * 1000))"
    by (rule unat_scast_nonneg)
  also have "\<dots> = nat (sint c) * 1000" using assms(1) by (simp add: s nat_mult_distrib)
  finally show ?thesis .
qed

lemma compute_format_Inr:
  assumes "vc4_hdmi_encoder_compute_format mc h st m bpc = Inr st'"
  shows "\<exists>fmt. vc4_hdmi_sink_supports_format_bpc mc (display_info h) m fmt bpc \<and>
     vc4_hdmi_encoder_clock_valid h (vc4_hdmi_encoder_compute_mode_clock m bpc fmt) = MODE_OK \<and>
     st' = st\<lparr>tmds_char_rate := vc4_hdmi_encoder_compute_mode_clock m bpc fmt,
              output_format := fmt\<rparr>"
  using assms
  unfolding vc4_hdmi_encoder_compute_format_def vc4_hdmi_encoder_compute_clock_def Let_def
  by (auto split: if_splits option.splits sum.splits)

lemma compute_config_loop_Inr:
  "compute_config_loop mc h st m ret bpc = Inr st' \<Longrightarrow> (\<And>s. ret \<noteq> Inr s) \<Longrightarrow>
   \<exists>b fmt. vc4_hdmi_sink_supports_format_bpc mc (display_info h) m fmt b \<and>
     vc4_hdmi_encoder_clock_valid h (vc4_hdmi_encoder_compute_mode_clock m b fmt) = MODE_OK \<and>
     st' = st\<lparr>tmds_char_rate := vc4_hdmi_encoder_compute_mode_clock m b fmt,
              output_format := fmt, output_bpc := b\<rparr>"
proof (induction mc h st m ret bpc rule: compute_config_loop.induct)
  case (1 mc h st m ret bpc)
  show ?case
  proof (cases "8 \<le> bpc")
    case False
    with 1(2) have "ret = Inr st'" by (simp add: compute_config_loop.simps)
    with 1(3) show ?thesis by blast
  next
    case True
    show ?thesis
    proof (cases "vc4_hdmi_encoder_compute_format mc h st m bpc")
      case (Inl e)
      with True 1(2) have "compute_config_loop mc h st m (Inl e) (bpc - 2) = Inr st'"
        by (subst (asm) compute_config_loop.simps) simp
      then show ?thesis
        using 1(1)[OF True Inl] by simp
    next
      case (Inr s)
      with True 1(2) have st': "st' = s\<lparr>output_bpc := bpc\<rparr>"
        by (subst (asm) compute_config_loop.simps) simp
      from compute_format_Inr[OF Inr] obtain fmt where
        "vc4_hdmi_sink_supports_format_bpc mc (display_info h) m fmt bpc"
        "vc4_hdmi_encoder_clock_valid h (vc4_hdmi_encoder_compute_mode_clock m bpc fmt) = MODE_OK"
        "s = st\<lparr>tmds_char_rate := vc4_hdmi_encoder_compute_mode_clock m bpc fmt,
              output_format := fmt\<rparr>"
        by blast
      with st' show ?thesis by blast
    qed
  qed
qed

lemma compute_config_Inr:
  assumes "vc4_hdmi_encoder_compute_config mc h st m = Inr st'"
  shows "\<exists>b fmt. vc4_hdmi_sink_supports_format_bpc mc (display_info h) m fmt b \<and>
     vc4_hdmi_encoder_clock_valid h (vc4_hdmi_encoder_compute_mode_clock m b fmt) = MODE_OK \<and>
     st' = st\<lparr>tmds_char_rate := vc4_hdmi_encoder_compute_mode_clock m b fmt,
              output_format := fmt, output_bpc := b\<rparr>"
  using assms unfolding vc4_hdmi_encoder_compute_config_def Let_def
  by (rule compute_config_loop_Inr) simp

lemma clock_valid_OK_iff:
  "vc4_hdmi_encoder_clock_valid h clk = MODE_OK \<longleftrightarrow>
     clk \<le> max_pixel_clock (variant h) \<and>
     (disable_4kp60 h \<longrightarrow> clk \<le> 340000000) \<and>
     (max_tmds_clock (display_info h) \<noteq> 0 \<longrightarrow>
        clk \<le> scast (max_tmds_clock (display_info h) * 1000))"
  unfolding vc4_hdmi_encoder_clock_valid_def Let_def HDMI_14_MAX_TMDS_CLK_def
  by (auto simp: not_less)

lemma clock_valid_cases:
  "vc4_hdmi_encoder_clock_valid h clk = MODE_OK \<or>
   vc4_hdmi_encoder_clock_valid h clk = MODE_CLOCK_HIGH"
  unfolding vc4_hdmi_encoder_clock_valid_def Let_def by simp

text \<open>
  Claim C2. When the negotiation succeeds, the rate it leaves in the connector state is
  at most the variant's maximum pixel clock, at most 340,000,000 Hz when 4k60 is
  disabled, and at most the sink's maximum TMDS clock in kHz times 1000 when that maximum
  is not zero; and a candidate whose rate exceeds one of these ceilings is refused by the
  clock check, so that \<open>vc4_hdmi_encoder_compute_clock\<close> fails with \<open>EINVAL\<close>. The
  sink's maximum is taken in the range where its product with 1000 fits an \<open>int\<close>.
\<close>

theorem negotiated_rate_within_ceilings:
  "(vc4_hdmi_encoder_compute_config mc h st m = Inr st' \<and>
    0 \<le> sint (max_tmds_clock (display_info h)) \<and>
    sint (max_tmds_clock (display_info h)) \<le> 2147483 \<longrightarrow>
      tmds_char_rate st' \<le> max_pixel_clock (variant h) \<and>
      (disable_4kp60 h \<longrightarrow> tmds_char_rate st' \<le> 340000000) \<and>
      (max_tmds_clock (display_info h) \<noteq> 0 \<longrightarrow>
         unat (tmds_char_rate st') \<le> nat (sint (max_tmds_clock (display_info h))) * 1000)) \<and>
   (0 \<le> sint (max_tmds_clock (display_info h)) \<and>
    sint (max_tmds_clock (display_info h)) \<le> 2147483 \<and>
    (vc4_hdmi_encoder_compute_mode_clock m bpc fmt > max_pixel_clock (variant h) \<or>
     disable_4kp60 h \<and> vc4_hdmi_encoder_compute_mode_clock m bpc fmt > 340000000 \<or>
     max_tmds_clock (display_info h) \<noteq> 0 \<and>
       unat (vc4_hdmi_encoder_compute_mode_clock m bpc fmt) >
         nat (sint (max_tmds_clock (display_info h))) * 1000) \<longrightarrow>
      vc4_hdmi_encoder_clock_valid h (vc4_hdmi_encoder_compute_mode_clock m bpc fmt) =
        MODE_CLOCK_HIGH \<and>
      vc4_hdmi_encoder_compute_clock h st m bpc fmt = Inl EINVAL)"
proof (intro conjI impI)
  assume a: "vc4_hdmi_encoder_compute_config mc h st m = Inr st' \<and>
    0 \<le> sint (max_tmds_clock (display_info h)) \<and>
    sint (max_tmds_clock (display_info h)) \<le> 2147483"
  then obtain b f where
    ok: "vc4_hdmi_encoder_clock_valid h (vc4_hdmi_encoder_compute_mode_clock m b f) = MODE_OK"
    and st': "st' = st\<lparr>tmds_char_rate := vc4_hdmi_encoder_compute_mode_clock m b f,
              output_format := f, output_bpc := b\<rparr>"
    using compute_config_Inr by blast
  from st' have rate: "tmds_char_rate st' = vc4_hdmi_encoder_compute_mode_clock m b f"
    by simp
  from ok have v: "tmds_char_rate st' \<le> max_pixel_clock (variant h) \<and>
     (disable_4kp60 h \<longrightarrow> tmds_char_rate st' \<le> 340000000) \<and>
     (max_tmds_clock (display_info h) \<noteq> 0 \<longrightarrow>
        tmds_char_rate st' \<le> scast (max_tmds_clock (display_info h) * 1000))"
    unfolding rate clock_valid_OK_iff .
  from v show "tmds_char_rate st' \<le> max_pixel_clock (variant h)" by blast
  show "tmds_char_rate st' \<le> 340000000" if "disable_4kp60 h"
    using v that by blast
  show "unat (tmds_char_rate st') \<le> nat (sint (max_tmds_clock (display_info h))) * 1000"
    if "max_tmds_clock (display_info h) \<noteq> 0"
  proof -
    have "tmds_char_rate st' \<le> scast (max_tmds_clock (display_info h) * 1000)"
      using v that by blast
    then have "unat (tmds_char_rate st') \<le>
        unat (scast (max_tmds_clock (display_info h) * 1000) :: u64)"
      by (simp add: word_le_nat_alt)
    also have "\<dots> = nat (sint (max_tmds_clock (display_info h))) * 1000"
      using a by (intro unat_scast_mult_1000) simp_all
    finally show ?thesis .
  qed
next
  assume a: "0 \<le> sint (max_tmds_clock (display_info h)) \<and>
    sint (max_tmds_clock (display_info h)) \<le> 2147483 \<and>
    (vc4_hdmi_encoder_compute_mode_clock m bpc fmt > max_pixel_clock (variant h) \<or>
     disable_4kp60 h \<and> vc4_hdmi_encoder_compute_mode_clock m bpc fmt > 340000000 \<or>
     max_tmds_clock (display_info h) \<noteq> 0 \<and>
       unat (vc4_hdmi_encoder_compute_mode_clock m bpc fmt) >
         nat (sint (max_tmds_clock (display_info h))) * 1000)"
  let ?clk = "vc4_hdmi_encoder_compute_mode_clock m bpc fmt"
  have u: "unat (scast (max_tmds_clock (display_info h) * 1000) :: u64) =
      nat (sint (max_tmds_clock (display_info h))) * 1000"
    using a by (intro unat_scast_mult_1000) simp_all
  have "\<not> (?clk \<le> max_pixel_clock (variant h) \<and>
     (disable_4kp60 h \<longrightarrow> ?clk \<le> 340000000) \<and>
     (max_tmds_clock (display_info h) \<noteq> 0 \<longrightarrow>
        ?clk \<le> scast (max_tmds_clock (display_info h) * 1000)))"
    using a u by (auto simp: word_le_nat_alt word_less_nat_alt)
  then have "vc4_hdmi_encoder_clock_valid h ?clk \<noteq> MODE_OK"
    unfolding clock_valid_OK_iff .
  then show high: "vc4_hdmi_encoder_clock_valid h ?clk = MODE_CLOCK_HIGH"
    using clock_valid_cases[of h ?clk] by blast
  then show "vc4_hdmi_encoder_compute_clock h st m bpc fmt = Inl EINVAL"
    by (simp add: vc4_hdmi_encoder_compute_clock_def)
qed

lemma compute_format_Inl:
  "vc4_hdmi_encoder_compute_format mc h st m bpc = Inl e \<Longrightarrow> e = EINVAL"
  unfolding vc4_hdmi_encoder_compute_format_def Let_def
  by (auto split: if_splits option.splits sum.splits)

lemma compute_config_loop_Inl:
  "compute_config_loop mc h st m ret bpc = Inl e \<Longrightarrow> ret = Inl EINVAL \<Longrightarrow> e = EINVAL"
proof (induction mc h st m ret bpc rule: compute_config_loop.induct)
  case (1 mc h st m ret bpc)
  show ?case
  proof (cases "8 \<le> bpc")
    case False
    with 1(2,3) show ?thesis by (simp add: compute_config_loop.simps)
  next
    case True
    show ?thesis
    proof (cases "vc4_hdmi_encoder_compute_format mc h st m bpc")
      case (Inl e')
      then have e': "e' = EINVAL" by (rule compute_format_Inl)
      from True Inl 1(2) have "compute_config_loop mc h st m (Inl e') (bpc - 2) = Inl e"
        by (subst (asm) compute_config_loop.simps) simp
      then show ?thesis using 1(1)[OF True Inl] e' by simp
    next
      case (Inr s)
      with True 1(2) show ?thesis
        by (subst (asm) compute_config_loop.simps) simp
    qed
  qed
qed

lemma compute_config_Inl:
  "vc4_hdmi_encoder_compute_config mc h st m = Inl e \<Longrightarrow> e = EINVAL"
  unfolding vc4_hdmi_encoder_compute_config_def Let_def
  by (rule compute_config_loop_Inl) simp_all

lemma compute_config_spec_1080p60:
  "vc4_hdmi_encoder_compute_config mc h st mode_1080p60 = spec_negotiate mc h st mode_1080p60"
  by (rule compute_config_spec) (simp add: mode_1080p60_def)

theorem negotiated_rate_within_ceilings_witness:
  "(vc4_hdmi_encoder_compute_config (\<lambda>m. 16) hdmi_deep_colour conn_state_12 mode_1080p60 =
      Inr \<lparr>max_bpc = 12, tmds_char_rate = 222750000, output_bpc = 12,
           output_format = VC4_HDMI_OUTPUT_RGB\<rparr> \<and>
    0 \<le> sint (max_tmds_clock (display_info hdmi_deep_colour)) \<and>
    sint (max_tmds_clock (display_info hdmi_deep_colour)) \<le> 2147483 \<and>
    max_tmds_clock (display_info hdmi_deep_colour) \<noteq> 0 \<and>
    (222750000 :: u64) \<le> max_pixel_clock (variant hdmi_deep_colour) \<and>
    unat (222750000 :: u64) \<le> nat (sint (max_tmds_clock (display_info hdmi_deep_colour))) * 1000) \<and>
   (vc4_hdmi_encoder_compute_mode_clock mode_1080p60 12 VC4_HDMI_OUTPUT_RGB >
      max_pixel_clock (variant hdmi_bcm2835) \<and>
    vc4_hdmi_encoder_clock_valid hdmi_bcm2835
      (vc4_hdmi_encoder_compute_mode_clock mode_1080p60 12 VC4_HDMI_OUTPUT_RGB) =
        MODE_CLOCK_HIGH \<and>
    vc4_hdmi_encoder_compute_clock hdmi_bcm2835 conn_state_12 mode_1080p60 12
      VC4_HDMI_OUTPUT_RGB = Inl EINVAL)"
proof -
  let ?st' = "\<lparr>max_bpc = 12, tmds_char_rate = 222750000, output_bpc = 12,
           output_format = VC4_HDMI_OUTPUT_RGB\<rparr>"
  have run: "vc4_hdmi_encoder_compute_config (\<lambda>m. 16) hdmi_deep_colour conn_state_12
      mode_1080p60 = Inr ?st'"
    using compute_config_1080p60_deep_colour
      [where m = mode_1080p60 and mc = "\<lambda>m. 16" and h = hdmi_deep_colour
         and st = conn_state_12]
    by (simp add: example_defs)
  have wf: "0 \<le> sint (max_tmds_clock (display_info hdmi_deep_colour)) \<and>
    sint (max_tmds_clock (display_info hdmi_deep_colour)) \<le> 2147483"
    by (simp add: example_defs)
  have nz: "max_tmds_clock (display_info hdmi_deep_colour) \<noteq> 0"
    by (simp add: example_defs)
  have first: "tmds_char_rate ?st' \<le> max_pixel_clock (variant hdmi_deep_colour) \<and>
      unat (tmds_char_rate ?st') \<le>
        nat (sint (max_tmds_clock (display_info hdmi_deep_colour))) * 1000"
    using negotiated_rate_within_ceilings
      [where mc = "\<lambda>m. 16" and h = hdmi_deep_colour and st = conn_state_12
         and m = mode_1080p60 and st' = ?st'] run wf nz
    by blast
  have wf2: "0 \<le> sint (max_tmds_clock (display_info hdmi_bcm2835)) \<and>
    sint (max_tmds_clock (display_info hdmi_bcm2835)) \<le> 2147483"
    by (simp add: example_defs hdmi_bcm2835_def)
  have over: "vc4_hdmi_encoder_compute_mode_clock mode_1080p60 12 VC4_HDMI_OUTPUT_RGB >
      max_pixel_clock (variant hdmi_bcm2835)"
    by (simp add: example_defs hdmi_bcm2835_def vc4_hdmi_encoder_compute_mode_clock_def)
  have second: "vc4_hdmi_encoder_clock_valid hdmi_bcm2835
      (vc4_hdmi_encoder_compute_mode_clock mode_1080p60 12 VC4_HDMI_OUTPUT_RGB) =
        MODE_CLOCK_HIGH \<and>
    vc4_hdmi_encoder_compute_clock hdmi_bcm2835 conn_state_12 mode_1080p60 12
      VC4_HDMI_OUTPUT_RGB = Inl EINVAL"
    using negotiated_rate_within_ceilings
      [where h = hdmi_bcm2835 and st = conn_state_12 and m = mode_1080p60
         and bpc = 12 and fmt = VC4_HDMI_OUTPUT_RGB] wf2 over
    by blast
  from first have first': "(222750000 :: u64) \<le> max_pixel_clock (variant hdmi_deep_colour) \<and>
    unat (222750000 :: u64) \<le> nat (sint (max_tmds_clock (display_info hdmi_deep_colour))) * 1000"
    by simp
  show ?thesis
    using run wf nz first' over second by blast
qed

text \<open>
  Claim C3. On a sink that is not HDMI (a DVI sink), for every mode and every requested
  bpc, the negotiation either fails with \<open>EINVAL\<close> or succeeds with RGB at 8 bpc.
\<close>

theorem dvi_sink_rgb_8bpc_or_failure:
  "\<not> is_hdmi (display_info h) \<longrightarrow>
     vc4_hdmi_encoder_compute_config mc h st m = Inl EINVAL \<or>
     (\<exists>st'. vc4_hdmi_encoder_compute_config mc h st m = Inr st' \<and>
        output_format st' = VC4_HDMI_OUTPUT_RGB \<and> output_bpc st' = 8)"
proof
  assume dvi: "\<not> is_hdmi (display_info h)"
  show "vc4_hdmi_encoder_compute_config mc h st m = Inl EINVAL \<or>
     (\<exists>st'. vc4_hdmi_encoder_compute_config mc h st m = Inr st' \<and>
        output_format st' = VC4_HDMI_OUTPUT_RGB \<and> output_bpc st' = 8)"
  proof (cases "vc4_hdmi_encoder_compute_config mc h st m")
    case (Inl e)
    then show ?thesis using compute_config_Inl by blast
  next
    case (Inr st')
    from compute_config_Inr[OF Inr] obtain b f where
      sup: "vc4_hdmi_sink_supports_format_bpc mc (display_info h) m f b"
      and st': "st' = st\<lparr>tmds_char_rate := vc4_hdmi_encoder_compute_mode_clock m b f,
              output_format := f, output_bpc := b\<rparr>"
      by blast
    from sup dvi have "f = VC4_HDMI_OUTPUT_RGB \<and> b = 8"
      unfolding vc4_hdmi_sink_supports_format_bpc_def Let_def
      by (auto split: if_splits)
    with st' Inr show ?thesis by simp
  qed
qed

theorem dvi_sink_rgb_8bpc_or_failure_witness:
  "\<not> is_hdmi (display_info hdmi_dvi) \<and>
   vc4_hdmi_encoder_compute_config (\<lambda>m. 16) hdmi_dvi conn_state_12 mode_1080p60 =
     Inr \<lparr>max_bpc = 12, tmds_char_rate = 148500000, output_bpc = 8,
          output_format = VC4_HDMI_OUTPUT_RGB\<rparr>"
proof -
  have dvi: "\<not> is_hdmi (display_info hdmi_dvi)"
    by (simp add: hdmi_dvi_def sink_dvi_def)
  from dvi_sink_rgb_8bpc_or_failure[of hdmi_dvi "\<lambda>m. 16" conn_state_12 mode_1080p60] dvi
  have "vc4_hdmi_encoder_compute_config (\<lambda>m. 16) hdmi_dvi conn_state_12 mode_1080p60 =
      Inl EINVAL \<or>
     (\<exists>st'. vc4_hdmi_encoder_compute_config (\<lambda>m. 16) hdmi_dvi conn_state_12 mode_1080p60 =
        Inr st' \<and> output_format st' = VC4_HDMI_OUTPUT_RGB \<and> output_bpc st' = 8)"
    by blast
  moreover have "vc4_hdmi_encoder_compute_config (\<lambda>m. 16) hdmi_dvi conn_state_12 mode_1080p60 =
     Inr \<lparr>max_bpc = 12, tmds_char_rate = 148500000, output_bpc = 8,
          output_format = VC4_HDMI_OUTPUT_RGB\<rparr>"
    unfolding compute_config_spec_1080p60
    by (simp add: spec_negotiate_def spec_candidates_def spec_clamp_def spec_depths.simps
        spec_passes_def spec_tmds_rate_def vc4_hdmi_sink_supports_format_bpc_def
        vc4_hdmi_encoder_clock_valid_def HDMI_14_MAX_TMDS_CLK_def example_defs hdmi_dvi_def)
  ultimately show ?thesis using dvi by blast
qed

section \<open>The Wi-Fi coexistence override of the atomic check\<close>

lemma wifi_band_word:
  assumes "2400000000 \<le> 10 * (sint (c::s32) * 1000)" "10 * (sint c * 1000) \<le> 2422000000"
  shows "(scast (c * 1000) :: u64) * 10 \<ge> WIFI_2_4GHz_CH1_MIN_FREQ \<and>
         (scast (c * 1000) :: u64) * 10 \<le> WIFI_2_4GHz_CH1_MAX_FREQ"
proof -
  from assms have r: "240000 \<le> sint c" "sint c \<le> 242200" by simp_all
  then have wf: "0 \<le> sint c" "sint c \<le> 2147483" by simp_all
  have u: "unat (scast (c * 1000) :: u64) = nat (sint c) * 1000"
    by (rule unat_scast_mult_1000[OF wf])
  have n: "240000 \<le> nat (sint c)" "nat (sint c) \<le> 242200" using r by simp_all
  have "unat ((scast (c * 1000) :: u64) * 10) = unat (scast (c * 1000) :: u64) * unat (10 :: u64)"
    using n u by (intro unat_mult_u64) simp
  then have v: "unat ((scast (c * 1000) :: u64) * 10) = nat (sint c) * 10000"
    using u by simp
  show ?thesis
    unfolding WIFI_2_4GHz_CH1_MIN_FREQ_def WIFI_2_4GHz_CH1_MAX_FREQ_def word_le_nat_alt v
    using n by simp
qed

lemma fixup_clock: "clock (fixup_dblclk_h_timings m) = clock m"
  by (simp add: fixup_dblclk_h_timings_def Let_def)

lemma atomic_check_1440p60:
  "vc4_hdmi_encoder_atomic_check (\<lambda>m. 0) hdmi_wifi conn_state_12
      \<lparr>adjusted_mode = mode_1440p60, mode_changed = False\<rparr> conn_state_12 =
    (None,
     \<lparr>adjusted_mode = mode_1440p60\<lparr>clock := 238560\<rparr>, mode_changed = True\<rparr>,
     \<lparr>max_bpc = 12, tmds_char_rate = 357840000, output_bpc = 12,
        output_format = VC4_HDMI_OUTPUT_RGB\<rparr>)"
proof -
  have cfg: "vc4_hdmi_encoder_compute_config (\<lambda>m. 0) hdmi_wifi conn_state_12
      (mode_1440p60\<lparr>clock := 238560\<rparr>) =
     Inr \<lparr>max_bpc = 12, tmds_char_rate = 357840000, output_bpc = 12,
        output_format = VC4_HDMI_OUTPUT_RGB\<rparr>"
    by (subst compute_config_spec)
      (simp_all add: spec_negotiate_def spec_candidates_def spec_clamp_def spec_depths.simps
        spec_passes_def spec_tmds_rate_def vc4_hdmi_sink_supports_format_bpc_def
        vc4_hdmi_encoder_clock_valid_def HDMI_14_MAX_TMDS_CLK_def example_defs hdmi_wifi_def
        mode_1440p60_def)
  have band: "(scast (clock mode_1440p60 * 1000) :: u64) * 10 \<ge> WIFI_2_4GHz_CH1_MIN_FREQ \<and>
         (scast (clock mode_1440p60 * 1000) :: u64) * 10 \<le> WIFI_2_4GHz_CH1_MAX_FREQ"
    by (simp add: mode_1440p60_def WIFI_2_4GHz_CH1_MIN_FREQ_def WIFI_2_4GHz_CH1_MAX_FREQ_def)
  have even: "\<not> odd_h_timings_remaining mode_1440p60" "\<not> flag_dblclk mode_1440p60"
    by (simp_all add: odd_h_timings_remaining_def mode_1440p60_def)
  have wifi: "disable_wifi_frequencies hdmi_wifi"
    by (simp add: hdmi_wifi_def)
  show ?thesis
    unfolding vc4_hdmi_encoder_atomic_check_def Let_def
    using band even wifi cfg by (simp add: conn_state_12_def)
qed

text \<open>
  Claim C4 as stated fails. The double-clock mode at 120,500 kHz doubles to 241,000 kHz,
  whose tenfold is 2,410,000,000 Hz, inside the band; with the coexistence flag set the
  atomic check leaves the mode clock at 120,500 kHz. The driver tests ten times the mode
  clock itself, which is 1,205,000,000 Hz here.
\<close>

theorem wifi_override_after_doubling_counterexample:
  "disable_wifi_frequencies hdmi_wifi \<and> flag_dblclk mode_dblclk_120500 \<and>
   (2400000000 :: int) \<le> 10 * (2 * (sint (clock mode_dblclk_120500) * 1000)) \<and>
   10 * (2 * (sint (clock mode_dblclk_120500) * 1000)) \<le> (2422000000 :: int) \<and>
   clock (adjusted_mode (fst (snd (vc4_hdmi_encoder_atomic_check (\<lambda>m. 0) hdmi_wifi
      conn_state_12 \<lparr>adjusted_mode = mode_dblclk_120500, mode_changed = False\<rparr>
      conn_state_12)))) = 120500 \<and>
   (120500 :: s32) \<noteq> 238560"
  by (simp add: vc4_hdmi_encoder_atomic_check_def Let_def mode_dblclk_120500_def
      hdmi_wifi_def example_defs fixup_dblclk_h_timings_def odd_h_timings_remaining_def
      WIFI_2_4GHz_CH1_MIN_FREQ_def WIFI_2_4GHz_CH1_MAX_FREQ_def split: sum.splits)

text \<open>
  Claim C4, amended. For every atomic-check invocation with the Wi-Fi coexistence flag
  set, on a mode whose clock, taken as it is (kHz times 1000, not doubled) and multiplied
  by 10, lies in the inclusive band 2,400,000,000 to 2,422,000,000 Hz: either the check
  for odd horizontal timings rejects the mode with \<open>EINVAL\<close> before anything else, and then
  the clock is untouched and no negotiation runs; or the mode clock is overridden to
  238,560 kHz and the negotiation runs on the overridden mode, its outcome being the
  outcome of the atomic check.
\<close>

theorem wifi_override_on_undoubled_clock:
  assumes wifi: "disable_wifi_frequencies h"
    and lo: "2400000000 \<le> 10 * (sint (clock (adjusted_mode crtc)) * 1000)"
    and hi: "10 * (sint (clock (adjusted_mode crtc)) * 1000) \<le> 2422000000"
    and run: "vc4_hdmi_encoder_atomic_check mc h old_st crtc st = (ret, crtc', st')"
  shows "(ret = Some EINVAL \<and> st' = st \<and> unsupported_odd_h_timings (variant h) \<and>
          odd_h_timings_remaining (adjusted_mode crtc') \<and>
          clock (adjusted_mode crtc') = clock (adjusted_mode crtc)) \<or>
         (clock (adjusted_mode crtc') = 238560 \<and>
          (case vc4_hdmi_encoder_compute_config mc h st (adjusted_mode crtc') of
             Inl e \<Rightarrow> ret = Some e \<and> st' = st
           | Inr s \<Rightarrow> ret = None \<and> st' = s))"
proof -
  note band = wifi_band_word[OF lo hi]
  define m1 where "m1 =
     (if unsupported_odd_h_timings (variant h) \<and> flag_dblclk (adjusted_mode crtc)
      then fixup_dblclk_h_timings (adjusted_mode crtc) else adjusted_mode crtc)"
  define rejected where
    "rejected \<longleftrightarrow> unsupported_odd_h_timings (variant h) \<and> odd_h_timings_remaining m1"
  have clk1: "clock m1 = clock (adjusted_mode crtc)"
    by (simp add: m1_def fixup_clock)
  have unfold: "vc4_hdmi_encoder_atomic_check mc h old_st crtc st =
    (if rejected then (Some EINVAL, crtc\<lparr>adjusted_mode := m1\<rparr>, st)
     else (case vc4_hdmi_encoder_compute_config mc h st (m1\<lparr>clock := 238560\<rparr>) of
             Inl e \<Rightarrow> (Some e, crtc\<lparr>adjusted_mode := m1\<lparr>clock := 238560\<rparr>\<rparr>, st)
           | Inr s \<Rightarrow>
               (None,
                (if output_bpc s \<noteq> output_bpc old_st \<or>
                    output_format s \<noteq> output_format old_st
                 then crtc\<lparr>adjusted_mode := m1\<lparr>clock := 238560\<rparr>, mode_changed := True\<rparr>
                 else crtc\<lparr>adjusted_mode := m1\<lparr>clock := 238560\<rparr>\<rparr>),
                s)))"
    unfolding vc4_hdmi_encoder_atomic_check_def Let_def m1_def[symmetric] rejected_def[symmetric]
    using wifi band by simp
  show ?thesis
  proof (cases rejected)
    case True
    with run unfold have "ret = Some EINVAL" "crtc' = crtc\<lparr>adjusted_mode := m1\<rparr>" "st' = st"
      by simp_all
    with True clk1 show ?thesis
      unfolding rejected_def by simp
  next
    case False
    show ?thesis
    proof (cases "vc4_hdmi_encoder_compute_config mc h st (m1\<lparr>clock := 238560\<rparr>)")
      case (Inl e)
      with False run unfold have "ret = Some e"
        "crtc' = crtc\<lparr>adjusted_mode := m1\<lparr>clock := 238560\<rparr>\<rparr>" "st' = st"
        by simp_all
      with Inl show ?thesis by simp
    next
      case (Inr s)
      with False run unfold have "ret = None"
        "adjusted_mode crtc' = m1\<lparr>clock := 238560\<rparr>" "st' = s"
        by (auto split: if_splits)
      with Inr show ?thesis by simp
    qed
  qed
qed

theorem wifi_override_on_undoubled_clock_witness:
  "disable_wifi_frequencies hdmi_wifi \<and>
   2400000000 \<le> 10 * (sint (clock mode_1440p60) * 1000) \<and>
   10 * (sint (clock mode_1440p60) * 1000) \<le> 2422000000 \<and>
   vc4_hdmi_encoder_atomic_check (\<lambda>m. 0) hdmi_wifi conn_state_12
      \<lparr>adjusted_mode = mode_1440p60, mode_changed = False\<rparr> conn_state_12 =
    (None,
     \<lparr>adjusted_mode = mode_1440p60\<lparr>clock := 238560\<rparr>, mode_changed = True\<rparr>,
     \<lparr>max_bpc = 12, tmds_char_rate = 357840000, output_bpc = 12,
        output_format = VC4_HDMI_OUTPUT_RGB\<rparr>) \<and>
   clock (adjusted_mode
     \<lparr>adjusted_mode = mode_1440p60\<lparr>clock := 238560\<rparr>, mode_changed = True\<rparr>) = 238560 \<and>
   vc4_hdmi_encoder_compute_config (\<lambda>m. 0) hdmi_wifi conn_state_12
     (mode_1440p60\<lparr>clock := 238560\<rparr>) =
     Inr \<lparr>max_bpc = 12, tmds_char_rate = 357840000, output_bpc = 12,
        output_format = VC4_HDMI_OUTPUT_RGB\<rparr>"
proof -
  have wifi: "disable_wifi_frequencies hdmi_wifi"
    by (simp add: hdmi_wifi_def)
  have lo: "2400000000 \<le>
      10 * (sint (clock (adjusted_mode \<lparr>adjusted_mode = mode_1440p60, mode_changed = False\<rparr>)) * 1000)"
    and hi: "10 * (sint (clock (adjusted_mode
       \<lparr>adjusted_mode = mode_1440p60, mode_changed = False\<rparr>)) * 1000) \<le> 2422000000"
    by (simp_all add: mode_1440p60_def)
  note T = wifi_override_on_undoubled_clock[OF wifi lo hi atomic_check_1440p60]
  let ?cfg = "vc4_hdmi_encoder_compute_config (\<lambda>m. 0) hdmi_wifi conn_state_12
     (mode_1440p60\<lparr>clock := 238560\<rparr>)"
  let ?s = "\<lparr>max_bpc = 12, tmds_char_rate = 357840000, output_bpc = 12,
        output_format = VC4_HDMI_OUTPUT_RGB\<rparr>"
  have cfg: "?cfg = Inr ?s"
  proof (cases ?cfg)
    case (Inl e)
    with T show ?thesis by simp
  next
    case (Inr s)
    with T show ?thesis by simp
  qed
  from wifi lo hi atomic_check_1440p60 cfg show ?thesis
    by simp
qed

section \<open>The General Control Packet parameters\<close>

lemmas vc5_gcp_defs =
  VC5_HDMI_DEEP_COLOR_CONFIG_1_INIT_PACK_PHASE_SHIFT_def
  VC5_HDMI_DEEP_COLOR_CONFIG_1_INIT_PACK_PHASE_MASK_def
  VC5_HDMI_DEEP_COLOR_CONFIG_1_COLOR_DEPTH_SHIFT_def
  VC5_HDMI_DEEP_COLOR_CONFIG_1_COLOR_DEPTH_MASK_def
  VC5_HDMI_GCP_CONFIG_GCP_ENABLE_def
  VC5_HDMI_GCP_WORD_1_GCP_SUBPACKET_BYTE_1_SHIFT_def
  VC5_HDMI_GCP_WORD_1_GCP_SUBPACKET_BYTE_1_MASK_def
  VC4_MASK_def VC4_SET_FIELD_def BIT_def mask_eq_exp_minus_1

text \<open>
  Claim C5. After the extended-generation timing programmer has run, for every connector
  state and every previous register content: the colour-depth field of
  \<open>HDMI_DEEP_COLOR_CONFIG_1\<close> and the sub-packet byte 1 of \<open>HDMI_GCP_WORD_1\<close> both hold the
  code 6 for 12 bpc, 5 for 10 bpc and 4 for 8 bpc or any other value, and the enable bit
  of \<open>HDMI_GCP_CONFIG\<close> is set exactly for 10 and 12 bpc; except that for YUV422 output the
  code is 4 and the enable bit is clear, whatever the bit depth.
\<close>

theorem vc5_gcp_depth_code_and_enable:
  "(let regs' = vc5_hdmi_set_timings st regs;
        code = (if output_format st = VC4_HDMI_OUTPUT_YUV422 then 4
                else if output_bpc st = 12 then 6
                else if output_bpc st = 10 then 5
                else 4);
        enable = (output_format st \<noteq> VC4_HDMI_OUTPUT_YUV422 \<and>
                  (output_bpc st = 10 \<or> output_bpc st = 12))
    in drop_bit VC5_HDMI_DEEP_COLOR_CONFIG_1_COLOR_DEPTH_SHIFT
         (regs' HDMI_DEEP_COLOR_CONFIG_1 AND VC5_HDMI_DEEP_COLOR_CONFIG_1_COLOR_DEPTH_MASK) = code \<and>
       drop_bit VC5_HDMI_GCP_WORD_1_GCP_SUBPACKET_BYTE_1_SHIFT
         (regs' HDMI_GCP_WORD_1 AND VC5_HDMI_GCP_WORD_1_GCP_SUBPACKET_BYTE_1_MASK) = code \<and>
       ((regs' HDMI_GCP_CONFIG AND VC5_HDMI_GCP_CONFIG_GCP_ENABLE \<noteq> 0) = enable))"
  unfolding vc5_hdmi_set_timings_def Let_def
  by (simp add: vc5_gcp_defs bit.conj_disj_distrib2 and.assoc)

theorem vc5_gcp_depth_code_and_enable_witness:
  "(let regs' = vc5_hdmi_set_timings
        \<lparr>max_bpc = 12, tmds_char_rate = 222750000, output_bpc = 12,
           output_format = VC4_HDMI_OUTPUT_RGB\<rparr> (\<lambda>r. 0xFFFFFFFF)
    in regs' HDMI_DEEP_COLOR_CONFIG_1 AND 0xF = 6 \<and>
       drop_bit 8 (regs' HDMI_GCP_WORD_1 AND 0xFF00) = 6 \<and>
       regs' HDMI_GCP_CONFIG AND 0x80000000 \<noteq> 0) \<and>
   (let regs' = vc5_hdmi_set_timings
        \<lparr>max_bpc = 12, tmds_char_rate = 148500000, output_bpc = 12,
           output_format = VC4_HDMI_OUTPUT_YUV422\<rparr> (\<lambda>r. 0xFFFFFFFF)
    in regs' HDMI_DEEP_COLOR_CONFIG_1 AND 0xF = 4 \<and>
       drop_bit 8 (regs' HDMI_GCP_WORD_1 AND 0xFF00) = 4 \<and>
       regs' HDMI_GCP_CONFIG AND 0x80000000 = 0)"
  using vc5_gcp_depth_code_and_enable
      [of "\<lparr>max_bpc = 12, tmds_char_rate = 222750000, output_bpc = 12,
           output_format = VC4_HDMI_OUTPUT_RGB\<rparr>" "\<lambda>r. 0xFFFFFFFF"]
    vc5_gcp_depth_code_and_enable
      [of "\<lparr>max_bpc = 12, tmds_char_rate = 148500000, output_bpc = 12,
           output_format = VC4_HDMI_OUTPUT_YUV422\<rparr>" "\<lambda>r. 0xFFFFFFFF"]
  by (simp add: Let_def vc5_gcp_defs bit.conj_disj_distrib2 and.assoc)

section \<open>Scrambling: enabling, disabling and the re-check task\<close>


lemma enable_scrambling_effect:
  assumes "vc4_hdmi_supports_scrambling s"
    "vc4_hdmi_mode_needs_scrambling (saved_adjusted_mode s) (hdmi_output_bpc s)
        (hdmi_output_format s)"
  shows "vc4_hdmi_enable_scrambling s =
    s\<lparr>scdc_enabled := True,
      hw_regs := (hw_regs s)(HDMI_SCRAMBLER_CTL := hw_regs s HDMI_SCRAMBLER_CTL OR 1),
      scrambling_work := (if scrambling_work s = [] then [1000] else scrambling_work s),
      events := events s @
        [Scdc_set_high_tmds_clock_ratio True, Scdc_set_scrambling True,
         Hdmi_write HDMI_SCRAMBLER_CTL (hw_regs s HDMI_SCRAMBLER_CTL OR 1),
         Queue_delayed_work 1000]\<rparr>"
  using assms
  by (simp add: vc4_hdmi_enable_scrambling_def Let_def queue_delayed_work_def scdc_call_def
      scr_hdmi_write_def SCRAMBLING_POLLING_DELAY_MS_def VC5_HDMI_SCRAMBLER_CTL_ENABLE_def BIT_def)

lemma scrambling_wq_status_on:
  "scdc_scrambling_status s \<Longrightarrow> vc4_hdmi_scrambling_wq s = s"
  by (simp add: vc4_hdmi_scrambling_wq_def drm_scdc_get_scrambling_status_def)

lemma scrambling_wq_status_off:
  "\<not> scdc_scrambling_status s \<Longrightarrow> vc4_hdmi_scrambling_wq s =
    s\<lparr>scrambling_work := (if scrambling_work s = [] then [1000] else scrambling_work s),
      events := events s @
        [Scdc_set_high_tmds_clock_ratio True, Scdc_set_scrambling True,
         Queue_delayed_work 1000]\<rparr>"
  by (simp add: vc4_hdmi_scrambling_wq_def drm_scdc_get_scrambling_status_def Let_def
      queue_delayed_work_def scdc_call_def SCRAMBLING_POLLING_DELAY_MS_def)

lemma scrambling_wq_keeps:
  "scdc_enabled (vc4_hdmi_scrambling_wq s) = scdc_enabled s"
  "hw_regs (vc4_hdmi_scrambling_wq s) = hw_regs s"
  "scrambling_work_running (vc4_hdmi_scrambling_wq s) = scrambling_work_running s"
  by (cases "scdc_scrambling_status s";
      simp add: scrambling_wq_status_on scrambling_wq_status_off)+

lemma disable_scrambling_noop:
  "\<not> scdc_enabled s \<Longrightarrow> vc4_hdmi_disable_scrambling s = s"
  by (simp add: vc4_hdmi_disable_scrambling_def)

lemma disable_scrambling_effect:
  assumes "scdc_enabled s" "\<not> scrambling_work_running s"
  shows "vc4_hdmi_disable_scrambling s =
    s\<lparr>scdc_enabled := False,
      hw_regs := (hw_regs s)(HDMI_SCRAMBLER_CTL := hw_regs s HDMI_SCRAMBLER_CTL AND NOT 1),
      scrambling_work := [],
      events := events s @
        (if scrambling_work s \<noteq> [] then [Cancel_delayed_work_sync] else []) @
        [Hdmi_write HDMI_SCRAMBLER_CTL (hw_regs s HDMI_SCRAMBLER_CTL AND NOT 1),
         Scdc_set_scrambling False, Scdc_set_high_tmds_clock_ratio False]\<rparr>"
  using assms
  by (simp add: vc4_hdmi_disable_scrambling_def Let_def delayed_work_pending_def
      cancel_delayed_work_sync_def scdc_call_def
      scr_hdmi_write_def VC5_HDMI_SCRAMBLER_CTL_ENABLE_def BIT_def)


lemma disable_scrambling_flag:
  "\<not> scdc_enabled (vc4_hdmi_disable_scrambling s)"
  by (simp add: vc4_hdmi_disable_scrambling_def Let_def delayed_work_pending_def
      cancel_delayed_work_sync_def scrambling_work_finish_def scrambling_wq_keeps
      scdc_call_def scr_hdmi_write_def)




lemma needs_scrambling_iff:
  "vc4_hdmi_mode_needs_scrambling m bpc fmt \<longleftrightarrow>
     vc4_hdmi_encoder_compute_mode_clock m bpc fmt > 340000000"
  by (simp add: vc4_hdmi_mode_needs_scrambling_def HDMI_14_MAX_TMDS_CLK_def)

lemma supports_scrambling_iff:
  "vc4_hdmi_supports_scrambling s \<longleftrightarrow>
     is_hdmi (scr_display_info s) \<and> scdc_supported (scr_display_info s) \<and>
     scrambling_supported (scr_display_info s)"
  by (auto simp: vc4_hdmi_supports_scrambling_def Let_def)


lemma clock_2160p60: "vc4_hdmi_encoder_compute_mode_clock mode_2160p60 8 VC4_HDMI_OUTPUT_RGB = 594000000"
  by (simp add: vc4_hdmi_encoder_compute_mode_clock_def mode_2160p60_def)


lemma scrambler_2160p60_gates:
  "vc4_hdmi_supports_scrambling scrambler_2160p60"
  "vc4_hdmi_mode_needs_scrambling (saved_adjusted_mode scrambler_2160p60)
     (hdmi_output_bpc scrambler_2160p60) (hdmi_output_format scrambler_2160p60)"
  by (simp_all add: supports_scrambling_iff needs_scrambling_iff scrambler_2160p60_def
      clock_2160p60 sink_deep_colour_def)

lemma scrambler_enabled_2160p60:
  "vc4_hdmi_enable_scrambling scrambler_2160p60 =
     scrambler_2160p60\<lparr>scdc_enabled := True,
       hw_regs := (\<lambda>r. 0)(HDMI_SCRAMBLER_CTL := 1),
       scrambling_work := [1000],
       events := [Scdc_set_high_tmds_clock_ratio True, Scdc_set_scrambling True,
         Hdmi_write HDMI_SCRAMBLER_CTL 1, Queue_delayed_work 1000]\<rparr>"
  unfolding enable_scrambling_effect[OF scrambler_2160p60_gates]
  by (simp add: scrambler_2160p60_def)










text \<open>
  Claim C10. When \<open>scdc_enabled\<close> is false, disabling scrambling makes no SCDC call and no
  register write and leaves the whole state as it was; disabling twice in a row gives
  the state that disabling once gives; and after any call \<open>scdc_enabled\<close> is false.
\<close>

theorem disable_scrambling_guarded_and_idempotent:
  "(\<not> scdc_enabled s \<longrightarrow> vc4_hdmi_disable_scrambling s = s) \<and>
   vc4_hdmi_disable_scrambling (vc4_hdmi_disable_scrambling s) = vc4_hdmi_disable_scrambling s \<and>
   \<not> scdc_enabled (vc4_hdmi_disable_scrambling s)"
proof (intro conjI impI)
  show "vc4_hdmi_disable_scrambling s = s" if "\<not> scdc_enabled s"
    using that by (rule disable_scrambling_noop)
  show off: "\<not> scdc_enabled (vc4_hdmi_disable_scrambling s)"
    by (rule disable_scrambling_flag)
  show "vc4_hdmi_disable_scrambling (vc4_hdmi_disable_scrambling s) = vc4_hdmi_disable_scrambling s"
    using off by (rule disable_scrambling_noop)
qed

theorem disable_scrambling_guarded_and_idempotent_witness:
  "\<not> scdc_enabled scrambler_1080p60 \<and>
   vc4_hdmi_disable_scrambling scrambler_1080p60 = scrambler_1080p60 \<and>
   scdc_enabled (vc4_hdmi_enable_scrambling scrambler_2160p60) \<and>
   events (vc4_hdmi_disable_scrambling (vc4_hdmi_enable_scrambling scrambler_2160p60)) =
     [Scdc_set_high_tmds_clock_ratio True, Scdc_set_scrambling True,
      Hdmi_write HDMI_SCRAMBLER_CTL 1, Queue_delayed_work 1000,
      Cancel_delayed_work_sync, Hdmi_write HDMI_SCRAMBLER_CTL 0,
      Scdc_set_scrambling False, Scdc_set_high_tmds_clock_ratio False] \<and>
   vc4_hdmi_disable_scrambling (vc4_hdmi_disable_scrambling
       (vc4_hdmi_enable_scrambling scrambler_2160p60)) =
     vc4_hdmi_disable_scrambling (vc4_hdmi_enable_scrambling scrambler_2160p60) \<and>
   \<not> scdc_enabled (vc4_hdmi_disable_scrambling (vc4_hdmi_enable_scrambling scrambler_2160p60))"
proof -
  note T1 = disable_scrambling_guarded_and_idempotent[of scrambler_1080p60]
  note T2 = disable_scrambling_guarded_and_idempotent
    [of "vc4_hdmi_enable_scrambling scrambler_2160p60"]
  have off: "\<not> scdc_enabled scrambler_1080p60"
    by (simp add: scrambler_1080p60_def)
  with T1 have a: "vc4_hdmi_disable_scrambling scrambler_1080p60 = scrambler_1080p60"
    by blast
  note en = scrambler_enabled_2160p60
  have on: "scdc_enabled (vc4_hdmi_enable_scrambling scrambler_2160p60)"
    by (simp add: en)
  have nrun: "\<not> scrambling_work_running (vc4_hdmi_enable_scrambling scrambler_2160p60)"
    unfolding en by (simp add: scrambler_2160p60_def)
  have ev: "events (vc4_hdmi_disable_scrambling (vc4_hdmi_enable_scrambling scrambler_2160p60)) =
     [Scdc_set_high_tmds_clock_ratio True, Scdc_set_scrambling True,
      Hdmi_write HDMI_SCRAMBLER_CTL 1, Queue_delayed_work 1000,
      Cancel_delayed_work_sync, Hdmi_write HDMI_SCRAMBLER_CTL 0,
      Scdc_set_scrambling False, Scdc_set_high_tmds_clock_ratio False]"
    unfolding disable_scrambling_effect[OF on nrun]
    unfolding en
    by (simp add: scrambler_2160p60_def)
  from off a on ev T2 show ?thesis by blast
qed

section \<open>The enable sequence and its unwinding\<close>

lemma configure_hsm_fail:
  assumes "hsm_set_min_rate_ret res \<noteq> 0"
  shows "vc4_hdmi_encoder_pre_crtc_configure k hooks res rate s =
    s\<lparr>power_events := power_events s @
           [Clk_set_min_rate Hsm_clock (max 120000000 ((rate div 100) * 101)), Drm_error ''Failed to set HSM clock rate'']\<rparr>"
  unfolding vc4_hdmi_encoder_pre_crtc_configure_def Let_def
  using assms
  by (simp add: power_call_def err_put_runtime_pm_def err_disable_pixel_clock_def)

lemma configure_pm_fail:
  assumes "hsm_set_min_rate_ret res = 0" "pm_resume_and_get_ret res < 0"
  shows "vc4_hdmi_encoder_pre_crtc_configure k hooks res rate s =
    s\<lparr>power_events := power_events s @
           [Clk_set_min_rate Hsm_clock (max 120000000 ((rate div 100) * 101)), Pm_runtime_resume_and_get, Drm_error ''Failed to retain power domain'']\<rparr>"
  unfolding vc4_hdmi_encoder_pre_crtc_configure_def Let_def
  using assms
  by (simp add: power_call_def err_put_runtime_pm_def err_disable_pixel_clock_def)

lemma configure_pixel_rate_fail:
  assumes "hsm_set_min_rate_ret res = 0" "0 \<le> pm_resume_and_get_ret res" "pixel_set_rate_ret res \<noteq> 0"
  shows "vc4_hdmi_encoder_pre_crtc_configure k hooks res rate s =
    s\<lparr>power_events := power_events s @
           [Clk_set_min_rate Hsm_clock (max 120000000 ((rate div 100) * 101)), Pm_runtime_resume_and_get, Clk_set_rate Pixel_clock rate,
            Drm_error ''Failed to set pixel clock rate'', Pm_runtime_put]\<rparr>"
  unfolding vc4_hdmi_encoder_pre_crtc_configure_def Let_def
  using assms
  by (simp add: power_call_def err_put_runtime_pm_def err_disable_pixel_clock_def)

lemma configure_pixel_enable_fail:
  assumes "hsm_set_min_rate_ret res = 0" "0 \<le> pm_resume_and_get_ret res" "pixel_set_rate_ret res = 0" "pixel_prepare_enable_ret res \<noteq> 0"
  shows "vc4_hdmi_encoder_pre_crtc_configure k hooks res rate s =
    s\<lparr>power_events := power_events s @
           [Clk_set_min_rate Hsm_clock (max 120000000 ((rate div 100) * 101)), Pm_runtime_resume_and_get, Clk_set_rate Pixel_clock rate,
            Clk_prepare_enable Pixel_clock,
            Drm_error ''Failed to turn on pixel clock'', Pm_runtime_put]\<rparr>"
  unfolding vc4_hdmi_encoder_pre_crtc_configure_def Let_def
  using assms
  by (simp add: power_call_def err_put_runtime_pm_def err_disable_pixel_clock_def)

lemma configure_bvb_rate_fail:
  assumes "hsm_set_min_rate_ret res = 0" "0 \<le> pm_resume_and_get_ret res" "pixel_set_rate_ret res = 0" "pixel_prepare_enable_ret res = 0" "bvb_set_min_rate_ret res \<noteq> 0"
  shows "vc4_hdmi_encoder_pre_crtc_configure k hooks res rate s =
    s\<lparr>power_events := power_events s @
           [Clk_set_min_rate Hsm_clock (max 120000000 ((rate div 100) * 101)), Pm_runtime_resume_and_get, Clk_set_rate Pixel_clock rate,
            Clk_prepare_enable Pixel_clock, Cec_update_clk_div,
            Clk_set_min_rate Pixel_bvb_clock (if rate > 297000000 then 300000000
                    else if rate > 148500000 then 150000000 else 75000000),
            Drm_error ''Failed to set pixel bvb clock rate'',
            Clk_disable_unprepare Pixel_clock, Pm_runtime_put]\<rparr>"
  unfolding vc4_hdmi_encoder_pre_crtc_configure_def Let_def
  using assms
  by (simp add: power_call_def err_put_runtime_pm_def err_disable_pixel_clock_def)

lemma configure_bvb_enable_fail:
  assumes "hsm_set_min_rate_ret res = 0" "0 \<le> pm_resume_and_get_ret res" "pixel_set_rate_ret res = 0" "pixel_prepare_enable_ret res = 0" "bvb_set_min_rate_ret res = 0" "bvb_prepare_enable_ret res \<noteq> 0"
  shows "vc4_hdmi_encoder_pre_crtc_configure k hooks res rate s =
    s\<lparr>power_events := power_events s @
           [Clk_set_min_rate Hsm_clock (max 120000000 ((rate div 100) * 101)), Pm_runtime_resume_and_get, Clk_set_rate Pixel_clock rate,
            Clk_prepare_enable Pixel_clock, Cec_update_clk_div,
            Clk_set_min_rate Pixel_bvb_clock (if rate > 297000000 then 300000000
                    else if rate > 148500000 then 150000000 else 75000000),
            Clk_prepare_enable Pixel_bvb_clock,
            Drm_error ''Failed to turn on pixel bvb clock'',
            Clk_disable_unprepare Pixel_clock, Pm_runtime_put]\<rparr>"
  unfolding vc4_hdmi_encoder_pre_crtc_configure_def Let_def
  using assms
  by (simp add: power_call_def err_put_runtime_pm_def err_disable_pixel_clock_def)

lemma configure_ok:
  assumes "hsm_set_min_rate_ret res = 0" "0 \<le> pm_resume_and_get_ret res"
     "pixel_set_rate_ret res = 0" "pixel_prepare_enable_ret res = 0"
     "bvb_set_min_rate_ret res = 0" "bvb_prepare_enable_ret res = 0"
  shows "vc4_hdmi_encoder_pre_crtc_configure k hooks res rate s =
    s\<lparr>pm_usage := pm_usage s + 1,
      clk_enabled := (clk_enabled s)
         (Pixel_clock := clk_enabled s Pixel_clock + 1,
          Pixel_bvb_clock := clk_enabled s Pixel_bvb_clock + 1),
      scheduler_control := scheduler_control s OR VC4_HDMI_SCHEDULER_CONTROL_MANUAL_FORMAT k OR
                VC4_HDMI_SCHEDULER_CONTROL_IGNORE_VSYNC_PREDICTS k,
      power_events := power_events s @
           ([Clk_set_min_rate Hsm_clock (max 120000000 ((rate div 100) * 101)), Pm_runtime_resume_and_get,
             Clk_set_rate Pixel_clock rate, Clk_prepare_enable Pixel_clock,
             Cec_update_clk_div, Clk_set_min_rate Pixel_bvb_clock (if rate > 297000000 then 300000000
                    else if rate > 148500000 then 150000000 else 75000000),
             Clk_prepare_enable Pixel_bvb_clock] @
            (if has_phy_init hooks then [Phy_init] else []) @
            [Scheduler_control_write (scheduler_control s OR VC4_HDMI_SCHEDULER_CONTROL_MANUAL_FORMAT k OR
                VC4_HDMI_SCHEDULER_CONTROL_IGNORE_VSYNC_PREDICTS k)] @
            (if has_set_timings hooks then [Set_timings] else []))\<rparr>"
  unfolding vc4_hdmi_encoder_pre_crtc_configure_def Let_def
  using assms
  by (simp add: power_call_def)

lemmas configure_cases =
  configure_hsm_fail configure_pm_fail configure_pixel_rate_fail configure_pixel_enable_fail
  configure_bvb_rate_fail configure_bvb_enable_fail configure_ok

text \<open>
  Claim C7 as stated fails on the order of the last two steps: the scheduler control
  register is written before the timing programmer of the variant runs, not after. A run
  at 148,500,000 Hz in which every call succeeds makes the calls in the order shown, which
  is not the order with the timings first.
\<close>

theorem pre_crtc_configure_timings_before_scheduler_counterexample:
  "power_events (vc4_hdmi_encoder_pre_crtc_configure example_regs_h hooks_all results_ok
      148500000 power_initial) =
     [Clk_set_min_rate Hsm_clock 149985000, Pm_runtime_resume_and_get,
      Clk_set_rate Pixel_clock 148500000, Clk_prepare_enable Pixel_clock,
      Cec_update_clk_div, Clk_set_min_rate Pixel_bvb_clock 75000000,
      Clk_prepare_enable Pixel_bvb_clock, Phy_init,
      Scheduler_control_write 32800, Set_timings] \<and>
   power_events (vc4_hdmi_encoder_pre_crtc_configure example_regs_h hooks_all results_ok
      148500000 power_initial) \<noteq>
     [Clk_set_min_rate Hsm_clock 149985000, Pm_runtime_resume_and_get,
      Clk_set_rate Pixel_clock 148500000, Clk_prepare_enable Pixel_clock,
      Cec_update_clk_div, Clk_set_min_rate Pixel_bvb_clock 75000000,
      Clk_prepare_enable Pixel_bvb_clock, Phy_init,
      Set_timings, Scheduler_control_write 32800]"
proof -
  have ok: "hsm_set_min_rate_ret results_ok = 0" "0 \<le> pm_resume_and_get_ret results_ok"
     "pixel_set_rate_ret results_ok = 0" "pixel_prepare_enable_ret results_ok = 0"
     "bvb_set_min_rate_ret results_ok = 0" "bvb_prepare_enable_ret results_ok = 0"
    by (simp_all add: results_ok_def)
  show ?thesis
    unfolding configure_ok[OF ok]
    by (simp add: power_initial_def hooks_all_def example_regs_h_def BIT_def)
qed

text \<open>
  Claim C7, amended. The configure path makes its calls in this fixed order: set the
  minimum rate of the state-machine clock (the larger of 120 MHz and 101 times a
  hundredth of the pixel rate), acquire the power domain, set the pixel clock rate, enable
  the pixel clock, update the CEC divider, set the minimum rate of the byte clock (300 MHz
  above 297 MHz, 150 MHz above 148.5 MHz, else 75 MHz), enable the byte clock, run the
  PHY initialisation of the variant if there is one, write the scheduler control register
  with the manual-format and ignore-vsync-predicts bits added, and only then run the
  timing programmer of the variant if there is one. When one of the six calls that can
  fail does fail, the error is logged, the pixel clock is disabled if it had been enabled,
  the power domain is released if it had been acquired, in this order, and nothing
  further is called; the usage count, the enable counts and the scheduler register are
  then what they were before. When none fails, one power reference and one enable of
  each of the two clocks are held.
\<close>

theorem pre_crtc_configure_order_and_unwind:
  "(let hsm_rate = max 120000000 ((rate div 100) * 101);
        bvb_rate = (if rate > 297000000 then 300000000
                    else if rate > 148500000 then 150000000 else 75000000);
        sched = scheduler_control s OR VC4_HDMI_SCHEDULER_CONTROL_MANUAL_FORMAT k OR
                VC4_HDMI_SCHEDULER_CONTROL_IGNORE_VSYNC_PREDICTS k;
        s' = vc4_hdmi_encoder_pre_crtc_configure k hooks res rate s;
        did = (\<lambda>evs. power_events s' = power_events s @ evs);
        released = (pm_usage s' = pm_usage s \<and> clk_enabled s' = clk_enabled s \<and>
                    scheduler_control s' = scheduler_control s)
    in
    (hsm_set_min_rate_ret res \<noteq> 0 \<longrightarrow>
       did [Clk_set_min_rate Hsm_clock hsm_rate,
            Drm_error ''Failed to set HSM clock rate''] \<and> released) \<and>
    (hsm_set_min_rate_ret res = 0 \<and> pm_resume_and_get_ret res < 0 \<longrightarrow>
       did [Clk_set_min_rate Hsm_clock hsm_rate, Pm_runtime_resume_and_get,
            Drm_error ''Failed to retain power domain''] \<and> released) \<and>
    (hsm_set_min_rate_ret res = 0 \<and> 0 \<le> pm_resume_and_get_ret res \<and>
     pixel_set_rate_ret res \<noteq> 0 \<longrightarrow>
       did [Clk_set_min_rate Hsm_clock hsm_rate, Pm_runtime_resume_and_get,
            Clk_set_rate Pixel_clock rate,
            Drm_error ''Failed to set pixel clock rate'', Pm_runtime_put] \<and> released) \<and>
    (hsm_set_min_rate_ret res = 0 \<and> 0 \<le> pm_resume_and_get_ret res \<and>
     pixel_set_rate_ret res = 0 \<and> pixel_prepare_enable_ret res \<noteq> 0 \<longrightarrow>
       did [Clk_set_min_rate Hsm_clock hsm_rate, Pm_runtime_resume_and_get,
            Clk_set_rate Pixel_clock rate, Clk_prepare_enable Pixel_clock,
            Drm_error ''Failed to turn on pixel clock'', Pm_runtime_put] \<and> released) \<and>
    (hsm_set_min_rate_ret res = 0 \<and> 0 \<le> pm_resume_and_get_ret res \<and>
     pixel_set_rate_ret res = 0 \<and> pixel_prepare_enable_ret res = 0 \<and>
     bvb_set_min_rate_ret res \<noteq> 0 \<longrightarrow>
       did [Clk_set_min_rate Hsm_clock hsm_rate, Pm_runtime_resume_and_get,
            Clk_set_rate Pixel_clock rate, Clk_prepare_enable Pixel_clock,
            Cec_update_clk_div, Clk_set_min_rate Pixel_bvb_clock bvb_rate,
            Drm_error ''Failed to set pixel bvb clock rate'',
            Clk_disable_unprepare Pixel_clock, Pm_runtime_put] \<and> released) \<and>
    (hsm_set_min_rate_ret res = 0 \<and> 0 \<le> pm_resume_and_get_ret res \<and>
     pixel_set_rate_ret res = 0 \<and> pixel_prepare_enable_ret res = 0 \<and>
     bvb_set_min_rate_ret res = 0 \<and> bvb_prepare_enable_ret res \<noteq> 0 \<longrightarrow>
       did [Clk_set_min_rate Hsm_clock hsm_rate, Pm_runtime_resume_and_get,
            Clk_set_rate Pixel_clock rate, Clk_prepare_enable Pixel_clock,
            Cec_update_clk_div, Clk_set_min_rate Pixel_bvb_clock bvb_rate,
            Clk_prepare_enable Pixel_bvb_clock,
            Drm_error ''Failed to turn on pixel bvb clock'',
            Clk_disable_unprepare Pixel_clock, Pm_runtime_put] \<and> released) \<and>
    (hsm_set_min_rate_ret res = 0 \<and> 0 \<le> pm_resume_and_get_ret res \<and>
     pixel_set_rate_ret res = 0 \<and> pixel_prepare_enable_ret res = 0 \<and>
     bvb_set_min_rate_ret res = 0 \<and> bvb_prepare_enable_ret res = 0 \<longrightarrow>
       did ([Clk_set_min_rate Hsm_clock hsm_rate, Pm_runtime_resume_and_get,
             Clk_set_rate Pixel_clock rate, Clk_prepare_enable Pixel_clock,
             Cec_update_clk_div, Clk_set_min_rate Pixel_bvb_clock bvb_rate,
             Clk_prepare_enable Pixel_bvb_clock] @
            (if has_phy_init hooks then [Phy_init] else []) @
            [Scheduler_control_write sched] @
            (if has_set_timings hooks then [Set_timings] else [])) \<and>
       pm_usage s' = pm_usage s + 1 \<and>
       clk_enabled s' = (clk_enabled s)
         (Pixel_clock := clk_enabled s Pixel_clock + 1,
          Pixel_bvb_clock := clk_enabled s Pixel_bvb_clock + 1) \<and>
       scheduler_control s' = sched))"
  unfolding Let_def
  apply (intro conjI impI)
  apply (simp_all add: configure_cases)
  done

theorem pre_crtc_configure_order_and_unwind_witness:
  "hsm_set_min_rate_ret results_ok = 0 \<and> 0 \<le> pm_resume_and_get_ret results_ok \<and>
   pixel_set_rate_ret results_ok = 0 \<and> pixel_prepare_enable_ret results_ok = 0 \<and>
   bvb_set_min_rate_ret results_ok = 0 \<and> bvb_prepare_enable_ret results_ok = 0 \<and>
   vc4_hdmi_encoder_pre_crtc_configure example_regs_h hooks_all results_ok 300000000
      power_initial =
     \<lparr>pm_usage = 1, clk_enabled = (\<lambda>c. 0)(Pixel_clock := 1, Pixel_bvb_clock := 1),
      scheduler_control = 32800,
      power_events =
        [Clk_set_min_rate Hsm_clock 303000000, Pm_runtime_resume_and_get,
         Clk_set_rate Pixel_clock 300000000, Clk_prepare_enable Pixel_clock,
         Cec_update_clk_div, Clk_set_min_rate Pixel_bvb_clock 300000000,
         Clk_prepare_enable Pixel_bvb_clock, Phy_init,
         Scheduler_control_write 32800, Set_timings]\<rparr> \<and>
   bvb_prepare_enable_ret results_bvb_enable_fails \<noteq> 0 \<and>
   vc4_hdmi_encoder_pre_crtc_configure example_regs_h hooks_all results_bvb_enable_fails
      100000000 power_initial =
     \<lparr>pm_usage = 0, clk_enabled = (\<lambda>c. 0), scheduler_control = 0,
      power_events =
        [Clk_set_min_rate Hsm_clock 120000000, Pm_runtime_resume_and_get,
         Clk_set_rate Pixel_clock 100000000, Clk_prepare_enable Pixel_clock,
         Cec_update_clk_div, Clk_set_min_rate Pixel_bvb_clock 75000000,
         Clk_prepare_enable Pixel_bvb_clock,
         Drm_error ''Failed to turn on pixel bvb clock'',
         Clk_disable_unprepare Pixel_clock, Pm_runtime_put]\<rparr>"
proof -
  have ok: "hsm_set_min_rate_ret results_ok = 0 \<and> 0 \<le> pm_resume_and_get_ret results_ok \<and>
     pixel_set_rate_ret results_ok = 0 \<and> pixel_prepare_enable_ret results_ok = 0 \<and>
     bvb_set_min_rate_ret results_ok = 0 \<and> bvb_prepare_enable_ret results_ok = 0"
    by (simp add: results_ok_def)
  have bad: "hsm_set_min_rate_ret results_bvb_enable_fails = 0 \<and>
     0 \<le> pm_resume_and_get_ret results_bvb_enable_fails \<and>
     pixel_set_rate_ret results_bvb_enable_fails = 0 \<and>
     pixel_prepare_enable_ret results_bvb_enable_fails = 0 \<and>
     bvb_set_min_rate_ret results_bvb_enable_fails = 0 \<and>
     bvb_prepare_enable_ret results_bvb_enable_fails \<noteq> 0"
    by (simp add: results_bvb_enable_fails_def)
  let ?a = "vc4_hdmi_encoder_pre_crtc_configure example_regs_h hooks_all results_ok 300000000
      power_initial"
  let ?b = "vc4_hdmi_encoder_pre_crtc_configure example_regs_h hooks_all
      results_bvb_enable_fails 100000000 power_initial"
  note Ta = pre_crtc_configure_order_and_unwind
    [of 300000000 power_initial example_regs_h hooks_all results_ok, unfolded Let_def]
  note Tb = pre_crtc_configure_order_and_unwind
    [of 100000000 power_initial example_regs_h hooks_all results_bvb_enable_fails,
      unfolded Let_def]
  from Ta ok have a: "power_events ?a =
        [Clk_set_min_rate Hsm_clock 303000000, Pm_runtime_resume_and_get,
         Clk_set_rate Pixel_clock 300000000, Clk_prepare_enable Pixel_clock,
         Cec_update_clk_div, Clk_set_min_rate Pixel_bvb_clock 300000000,
         Clk_prepare_enable Pixel_bvb_clock, Phy_init,
         Scheduler_control_write 32800, Set_timings]"
    "pm_usage ?a = 1"
    "clk_enabled ?a = (\<lambda>c. 0)(Pixel_clock := 1, Pixel_bvb_clock := 1)"
    "scheduler_control ?a = 32800"
    by (simp_all add: power_initial_def hooks_all_def example_regs_h_def BIT_def)
  from Tb bad have b: "power_events ?b =
        [Clk_set_min_rate Hsm_clock 120000000, Pm_runtime_resume_and_get,
         Clk_set_rate Pixel_clock 100000000, Clk_prepare_enable Pixel_clock,
         Cec_update_clk_div, Clk_set_min_rate Pixel_bvb_clock 75000000,
         Clk_prepare_enable Pixel_bvb_clock,
         Drm_error ''Failed to turn on pixel bvb clock'',
         Clk_disable_unprepare Pixel_clock, Pm_runtime_put]"
    "pm_usage ?b = 0" "clk_enabled ?b = (\<lambda>c. 0)" "scheduler_control ?b = 0"
    by (simp_all add: power_initial_def)
  have ea: "?a = \<lparr>pm_usage = pm_usage ?a, clk_enabled = clk_enabled ?a,
      scheduler_control = scheduler_control ?a, power_events = power_events ?a\<rparr>"
    by simp
  have eb: "?b = \<lparr>pm_usage = pm_usage ?b, clk_enabled = clk_enabled ?b,
      scheduler_control = scheduler_control ?b, power_events = power_events ?b\<rparr>"
    by simp
  show ?thesis
    using ok bad ea[unfolded a] eb[unfolded b] by simp
qed

section \<open>Writing an infoframe to the packet RAM\<close>

text \<open>
  The two loops of the write, as lists of register writes: the payload loop advances by
  seven bytes and two registers per turn, the clearing loop by one register per turn
  until the start of the next slot.
\<close>

lemma spec_payload_writes_Suc:
  "spec_payload_writes buffer i (Suc n) reg =
     [Writel reg (low_word buffer i), Writel (reg + 4) (high_word buffer i)] @
     spec_payload_writes buffer (i + 7) n (reg + 8)"
proof -
  have "map (\<lambda>j. [Writel (reg + 8 * of_nat j) (low_word buffer (i + 7 * j)),
                         Writel (reg + 8 * of_nat j + 4) (high_word buffer (i + 7 * j))])
               [0..<Suc n] =
      [Writel reg (low_word buffer i), Writel (reg + 4) (high_word buffer i)] #
      map (\<lambda>j. [Writel (reg + 8 + 8 * of_nat j) (low_word buffer (i + 7 + 7 * j)),
                         Writel (reg + 8 + 8 * of_nat j + 4) (high_word buffer (i + 7 + 7 * j))])
               [0..<n]"
    unfolding map_upt_Suc by (simp add: algebra_simps)
  then show ?thesis
    unfolding spec_payload_writes_def by simp
qed

lemma write_payload_spec:
  "(len - i + 6) div 7 = n \<Longrightarrow> i + 7 * n \<le> length buffer \<Longrightarrow>
   write_payload buffer len i reg s =
     Some (reg + 8 * of_nat n,
           s\<lparr>infoframe_events := infoframe_events s @ spec_payload_writes buffer i n reg\<rparr>)"
proof (induction n arbitrary: i reg s)
  case 0
  then have "\<not> i < len" by arith
  then show ?case
    by (subst write_payload.simps) (simp add: spec_payload_writes_def)
next
  case (Suc n)
  from Suc.prems(1) have lt: "i < len" by arith
  from Suc.prems(1) have rest: "(len - (i + 7) + 6) div 7 = n" by arith
  from Suc.prems(2) have inb: "i + 6 < length buffer" and fit: "i + 7 + 7 * n \<le> length buffer"
    by simp_all
  define s1 where "s1 = infoframe_event (Writel (reg + 4) (high_word buffer i))
      (infoframe_event (Writel reg (low_word buffer i)) s)"
  have step: "write_payload buffer len i reg s = write_payload buffer len (i + 7) (reg + 4 + 4) s1"
    by (subst write_payload.simps)
      (simp only: lt inb if_True Let_def s1_def low_word_def high_word_def)
  have r8: "reg + 4 + 4 = reg + 8" by simp
  have s1: "s1\<lparr>infoframe_events := infoframe_events s1 @ xs\<rparr> =
      s\<lparr>infoframe_events := infoframe_events s @
        [Writel reg (low_word buffer i), Writel (reg + 4) (high_word buffer i)] @ xs\<rparr>" for xs
    by (simp add: s1_def infoframe_event_def)
  have w: "reg + 8 + 8 * of_nat n = reg + 8 * of_nat (Suc n)"
    by simp
  show ?case
    unfolding step r8 Suc.IH[OF rest fit] spec_payload_writes_Suc s1 w ..
qed

lemma clear_remainder_spec:
  "(unat next - unat reg + 3) div 4 = n \<Longrightarrow> unat next \<le> 4294967292 \<Longrightarrow>
   clear_remainder next reg s =
     Some (s\<lparr>infoframe_events := infoframe_events s @
         map (\<lambda>j. Writel (reg + 4 * of_nat j) 0) [0..<n]\<rparr>)"
proof (induction n arbitrary: reg s)
  case 0
  then have "unat next \<le> unat reg" by arith
  then have "\<not> reg < next" by (simp add: word_less_nat_alt)
  then show ?case
    by (subst clear_remainder.simps) simp
next
  case (Suc n)
  from Suc.prems(1) have ul: "unat reg < unat next" by arith
  then have lt: "reg < next" by (simp add: word_less_nat_alt)
  have "unat reg + unat (4 :: u32) < 2 ^ 32"
    using ul Suc.prems(2) by simp
  then have u4: "unat (reg + 4) = unat reg + 4"
    using unat_add_lem[of reg 4] by simp
  from Suc.prems(1) have rest: "(unat next - unat (reg + 4) + 3) div 4 = n"
    unfolding u4 by arith
  have m: "map (\<lambda>j. Writel (reg + 4 * of_nat j) 0) [0..<Suc n] =
      Writel reg 0 # map (\<lambda>j. Writel (reg + 4 + 4 * of_nat j) 0) [0..<n]"
    unfolding map_upt_Suc by (simp add: algebra_simps)
  have step: "clear_remainder next reg s =
      clear_remainder next (reg + 4) (infoframe_event (Writel reg 0) s)"
    by (subst clear_remainder.simps) (simp only: lt if_True)
  show ?case
    unfolding step Suc.IH[OF rest Suc.prems(2)] m
    by (simp add: infoframe_event_def)
qed

lemma stop_packet_poll:
  "vc4_hdmi_stop_packet status type True s =
    (snd (wait_for (\<lambda>t. status t AND BIT (unat (type - 0x80)) = 0) (time_now s) 100),
     s\<lparr>ram_packet_config := ram_packet_config s AND NOT (BIT (unat (type - 0x80))),
       time_now := fst (wait_for (\<lambda>t. status t AND BIT (unat (type - 0x80)) = 0) (time_now s) 100),
       infoframe_events := infoframe_events s @
         [Write_ram_packet_config (ram_packet_config s AND NOT (BIT (unat (type - 0x80)))),
          Wait_for_packet_idle (type - 0x80) 100]\<rparr>)"
  by (simp add: vc4_hdmi_stop_packet_def Let_def infoframe_event_def split_def)

lemma buffer_padded:
  "length bytes \<le> bsize \<Longrightarrow>
   take bsize (bytes @ replicate bsize (0 :: u8)) = bytes @ replicate (bsize - length bytes) 0"
  by (simp add: min_def)

lemma wait_for_unroll:
  "0 < ms \<Longrightarrow>
   wait_for cond t ms = (if cond t then (t, None) else wait_for cond (Suc t) (ms - 1))"
  by (cases ms) simp_all

text \<open>
  Claim C6 as stated fails for a frame that does not pack. With the packet RAM on and
  slot 4 enabled, a write of type 0x84 whose packing fails returns the hardware state
  unchanged: the slot is not disabled (its enable bit is still set), the status register
  is not polled, and no event is recorded.
\<close>

theorem write_infoframe_pack_failure_skips_stop_counterexample:
  "vc4_hdmi_write_infoframe example_infoframe_regs_h status_idle_then_active 0x84 None
     infoframe_hw_enabled = Some infoframe_hw_enabled \<and>
   ram_packet_config infoframe_hw_enabled AND BIT 4 \<noteq> 0 \<and>
   infoframe_events infoframe_hw_enabled = []"
  unfolding vc4_hdmi_write_infoframe_def Let_def
  by (simp add: example_infoframe_regs_h_def infoframe_hw_enabled_def BIT_def)

text \<open>
  Claim C6, amended. For every infoframe write whose frame packs to a payload that fits
  the slot buffer in whole groups of seven bytes (the slot addresses not wrapping), the
  write first clears the slot's enable bit and polls up to 100 time units for the slot's
  status bit to clear. If that poll times out, the write logs and returns: no packet RAM
  register is written and the enable bit stays clear. Otherwise it writes the payload,
  seven bytes per pair of registers, then zero words up to the start of the next slot,
  then sets the slot's enable bit and polls up to 100 time units for the status bit to
  assert, logging an error (and nothing else) when that poll times out. A write whose
  frame does not pack returns without touching the slot: at most the once-only warning
  about the packet RAM being off is recorded.
\<close>

theorem write_infoframe_sequence:
  assumes fit: "7 * ((length bytes + 6) div 7) \<le> unat (VC4_HDMI_PACKET_STRIDE k)"
    and nowrap: "unat (HDMI_RAM_PACKET_START_offset k +
        VC4_HDMI_PACKET_STRIDE k * (type - 0x80 + 1)) \<le> 4294967292"
  shows "(let packet_id = type - 0x80;
        packet_reg = HDMI_RAM_PACKET_START_offset k + VC4_HDMI_PACKET_STRIDE k * packet_id;
        packet_reg_next =
          HDMI_RAM_PACKET_START_offset k + VC4_HDMI_PACKET_STRIDE k * (packet_id + 1);
        warn = (ram_packet_config s AND VC4_HDMI_RAM_PACKET_ENABLE k = 0 \<and> \<not> warned_once s);
        warning = (if warn then [Warn_once ''Packet RAM has to be on to store the packet.'']
                   else []);
        disabled = ram_packet_config s AND NOT (BIT (unat packet_id));
        idle = wait_for (\<lambda>t. status t AND BIT (unat packet_id) = 0) (time_now s) 100;
        buffer = bytes @ replicate (unat (VC4_HDMI_PACKET_STRIDE k) - length bytes) 0;
        pairs = (length bytes + 6) div 7;
        active = wait_for (\<lambda>t. status t AND BIT (unat packet_id) \<noteq> 0) (fst idle) 100
    in
    vc4_hdmi_write_infoframe k status type None s =
      Some (s\<lparr>warned_once := warned_once s \<or> warn,
              infoframe_events := infoframe_events s @ warning\<rparr>) \<and>
    vc4_hdmi_write_infoframe k status type (Some bytes) s =
      Some (if snd idle \<noteq> None
            then s\<lparr>ram_packet_config := disabled, warned_once := warned_once s \<or> warn,
                   time_now := fst idle,
                   infoframe_events := infoframe_events s @ warning @
                     [Write_ram_packet_config disabled,
                      Wait_for_packet_idle packet_id 100,
                      Infoframe_error ''Failed to wait for infoframe to go idle'']\<rparr>
            else s\<lparr>ram_packet_config := disabled OR BIT (unat packet_id),
                   warned_once := warned_once s \<or> warn, time_now := fst active,
                   infoframe_events := infoframe_events s @ warning @
                     [Write_ram_packet_config disabled,
                      Wait_for_packet_idle packet_id 100] @
                     spec_payload_writes buffer 0 pairs packet_reg @
                     spec_zero_fill (packet_reg + 8 * of_nat pairs) packet_reg_next @
                     [Write_ram_packet_config (disabled OR BIT (unat packet_id)),
                      Wait_for_packet_active packet_id 100] @
                     (if snd active \<noteq> None
                      then [Infoframe_error ''Failed to wait for infoframe to start'']
                      else [])\<rparr>))"
proof -
  define packet_id where "packet_id = type - 0x80"
  define packet_reg where
    "packet_reg = HDMI_RAM_PACKET_START_offset k + VC4_HDMI_PACKET_STRIDE k * packet_id"
  define packet_reg_next where
    "packet_reg_next = HDMI_RAM_PACKET_START_offset k + VC4_HDMI_PACKET_STRIDE k * (packet_id + 1)"
  define warn where
    "warn \<longleftrightarrow> ram_packet_config s AND VC4_HDMI_RAM_PACKET_ENABLE k = 0 \<and> \<not> warned_once s"
  define warning where
    "warning = (if warn then [Warn_once ''Packet RAM has to be on to store the packet.'']
                   else [])"
  define disabled where "disabled = ram_packet_config s AND NOT (BIT (unat packet_id))"
  define idle where
    "idle = wait_for (\<lambda>t. status t AND BIT (unat packet_id) = 0) (time_now s) 100"
  define bsize where "bsize = unat (VC4_HDMI_PACKET_STRIDE k)"
  define buffer where "buffer = bytes @ replicate (bsize - length bytes) 0"
  define pairs where "pairs = (length bytes + 6) div 7"
  define active where
    "active = wait_for (\<lambda>t. status t AND BIT (unat packet_id) \<noteq> 0) (fst idle) 100"
  define s0 where "s0 = s\<lparr>warned_once := warned_once s \<or> warn,
              infoframe_events := infoframe_events s @ warning\<rparr>"
  define s1 where "s1 = s0\<lparr>ram_packet_config := disabled, time_now := fst idle,
      infoframe_events := infoframe_events s0 @
         [Write_ram_packet_config disabled, Wait_for_packet_idle packet_id 100]\<rparr>"
  define s2 where "s2 = s1\<lparr>infoframe_events := infoframe_events s1 @
      spec_payload_writes buffer 0 pairs packet_reg\<rparr>"
  define s3 where "s3 = s2\<lparr>infoframe_events := infoframe_events s2 @
      spec_zero_fill (packet_reg + 8 * of_nat pairs) packet_reg_next\<rparr>"
  have warn0: "(if ram_packet_config s AND VC4_HDMI_RAM_PACKET_ENABLE k = 0 \<and> \<not> warned_once s
              then infoframe_event (Warn_once ''Packet RAM has to be on to store the packet.'')
                     (s\<lparr>warned_once := True\<rparr>)
              else s) = s0"
    by (cases warn) (auto simp: s0_def warn_def warning_def infoframe_event_def)
  have len: "length bytes \<le> bsize"
    using fit unfolding bsize_def by arith
  have buf: "take bsize (bytes @ replicate bsize 0) = buffer"
    unfolding buffer_def by (rule buffer_padded[OF len])
  have blen: "length buffer = bsize"
    using len by (simp add: buffer_def)
  have stop: "vc4_hdmi_stop_packet status type True s0 = (snd idle, s1)"
    unfolding stop_packet_poll
    by (simp add: s1_def s0_def idle_def packet_id_def disabled_def)
  have payload: "write_payload buffer (length bytes) 0 packet_reg s1 =
      Some (packet_reg + 8 * of_nat pairs, s2)"
    unfolding s2_def
    by (rule write_payload_spec) (use fit in \<open>simp_all add: pairs_def blen bsize_def\<close>)
  have clear: "clear_remainder packet_reg_next (packet_reg + 8 * of_nat pairs) s2 = Some s3"
    unfolding s3_def spec_zero_fill_def
    by (rule clear_remainder_spec[OF refl])
      (use nowrap in \<open>simp add: packet_reg_next_def packet_id_def\<close>)
  have none: "vc4_hdmi_write_infoframe k status type None s = Some s0"
    unfolding vc4_hdmi_write_infoframe_def Let_def warn0 by simp
  have some: "vc4_hdmi_write_infoframe k status type (Some bytes) s =
      (if snd idle \<noteq> None
       then Some (infoframe_event (Infoframe_error ''Failed to wait for infoframe to go idle'') s1)
       else (let v = ram_packet_config s3 OR BIT (unat packet_id);
                 s4 = infoframe_event (Write_ram_packet_config v) (s3\<lparr>ram_packet_config := v\<rparr>);
                 (t, ret) = wait_for (\<lambda>t. status t AND BIT (unat packet_id) \<noteq> 0) (time_now s4) 100;
                 s5 = infoframe_event (Wait_for_packet_active packet_id 100) (s4\<lparr>time_now := t\<rparr>)
             in if ret \<noteq> None
                then Some (infoframe_event
                       (Infoframe_error ''Failed to wait for infoframe to start'') s5)
                else Some s5))"
    unfolding vc4_hdmi_write_infoframe_def Let_def warn0
    unfolding option.case bsize_def[symmetric] packet_id_def[symmetric]
    unfolding buf packet_reg_def[symmetric] packet_reg_next_def[symmetric]
    unfolding stop prod.case payload option.case clear
    by simp
  have t3: "time_now s3 = fst idle" and c3: "ram_packet_config s3 = disabled"
    by (simp_all add: s3_def s2_def s1_def)
  show ?thesis
    unfolding Let_def
    unfolding packet_id_def[symmetric] packet_reg_def[symmetric] packet_reg_next_def[symmetric]
      warn_def[symmetric] bsize_def[symmetric]
    unfolding warning_def[symmetric] disabled_def[symmetric] idle_def[symmetric]
      buffer_def[symmetric] pairs_def[symmetric]
    unfolding active_def[symmetric]
    unfolding none some
    by (simp add: Let_def split_def infoframe_event_def t3 c3 active_def s3_def s2_def s1_def s0_def)
qed

theorem write_infoframe_sequence_witness:
  "7 * ((length audio_infoframe_packed + 6) div 7) \<le>
     unat (VC4_HDMI_PACKET_STRIDE example_infoframe_regs_h) \<and>
   unat (HDMI_RAM_PACKET_START_offset example_infoframe_regs_h +
         VC4_HDMI_PACKET_STRIDE example_infoframe_regs_h * (0x84 - 0x80 + 1)) \<le> 4294967292 \<and>
   vc4_hdmi_write_infoframe example_infoframe_regs_h status_idle_then_active 0x84
     (Some audio_infoframe_packed) infoframe_hw_enabled =
   Some \<lparr>ram_packet_config = 0x10010, warned_once = False, time_now = 5,
     infoframe_events =
       [Write_ram_packet_config 0x10000, Wait_for_packet_idle 4 100,
        Writel 0x490 0x0A0184, Writel 0x494 0x00000170,
        Writel 0x498 0, Writel 0x49C 0,
        Writel 0x4A0 0, Writel 0x4A4 0, Writel 0x4A8 0, Writel 0x4AC 0, Writel 0x4B0 0,
        Write_ram_packet_config 0x10010, Wait_for_packet_active 4 100]\<rparr>"
proof -
  have fit: "7 * ((length audio_infoframe_packed + 6) div 7) \<le>
     unat (VC4_HDMI_PACKET_STRIDE example_infoframe_regs_h)"
    by (simp add: audio_infoframe_packed_def example_infoframe_regs_h_def)
  have nowrap: "unat (HDMI_RAM_PACKET_START_offset example_infoframe_regs_h +
         VC4_HDMI_PACKET_STRIDE example_infoframe_regs_h * (0x84 - 0x80 + 1)) \<le> 4294967292"
    by (simp add: example_infoframe_regs_h_def)
  have idle: "wait_for (\<lambda>t. status_idle_then_active t AND 16 = 0) 0 100
      = (2, None)"
    by (simp add: wait_for_unroll status_idle_then_active_def BIT_def)
  have active: "wait_for (\<lambda>t. status_idle_then_active t AND 16 \<noteq> 0) 2 100
      = (5, None)"
    by (simp add: wait_for_unroll status_idle_then_active_def BIT_def)
  have payload: "spec_payload_writes
      (audio_infoframe_packed @ replicate 22 0) 0 2 0x490 =
      [Writel 0x490 0x0A0184, Writel 0x494 0x00000170, Writel 0x498 0, Writel 0x49C 0]"
    by (simp add: spec_payload_writes_def low_word_def high_word_def audio_infoframe_packed_def
        upt_rec[of _ "numeral _"] upt_rec[of _ "Suc _"] upt_rec[of _ 1])
  have fill: "spec_zero_fill 0x4A0 0x4B4 =
      [Writel 0x4A0 0, Writel 0x4A4 0, Writel 0x4A8 0, Writel 0x4AC 0, Writel 0x4B0 0]"
    by (simp add: spec_zero_fill_def upt_rec[of _ "numeral _"] upt_rec[of _ "Suc _"])
  show ?thesis
    using write_infoframe_sequence[where status = status_idle_then_active
        and s = infoframe_hw_enabled, OF fit nowrap]
      fit nowrap
    unfolding Let_def
    by (simp add: example_infoframe_regs_h_def infoframe_hw_enabled_def idle active payload fill
        audio_infoframe_packed_def[THEN arg_cong, of length] BIT_def)
qed

lemma write_audio_infoframe_example:
  "vc4_hdmi_write_infoframe example_infoframe_regs_h status_idle_then_active 0x84
     (Some audio_infoframe_packed) infoframe_hw_enabled = Some infoframe_hw_audio_written"
  unfolding vc4_hdmi_write_infoframe_def vc4_hdmi_stop_packet_def Let_def
  by (simp add: example_infoframe_regs_h_def infoframe_hw_enabled_def
      infoframe_hw_audio_written_def audio_infoframe_packed_def status_idle_then_active_def
      BIT_def infoframe_event_def wait_for_unroll write_payload.simps clear_remainder.simps)

section \<open>Clock recovery values of the audio path\<close>

lemma unat_mult_u32:
  "unat a * unat b < 4294967296 \<Longrightarrow> unat (a * b :: u32) = unat a * unat b"
  using unat_mult_lem[of a b] by simp

lemma n_cts_values:
  assumes P: "0 \<le> sint (clock mode)" "sint (clock mode) \<le> 2147483"
    and R: "0 < unat samplerate" "128 * unat samplerate < 4294967296"
  shows "unat (128 * samplerate div 1000 :: u32) = 128 * unat samplerate div 1000"
    and "(128 * samplerate :: u32) \<noteq> 0"
    and "unat (ucast ((scast (clock mode * 1000) :: u64) * ucast (128 * samplerate div 1000 :: u32)
            div ucast (128 * samplerate :: u32)) :: u32) =
         nat (sint (clock mode)) * 1000 * (128 * unat samplerate div 1000) div (128 * unat samplerate)"
proof -
  define p where "p = nat (sint (clock mode))"
  define r where "r = unat samplerate"
  define n where "n = 128 * r div 1000"
  have p: "p \<le> 2147483" using P by (simp add: p_def)
  have r: "0 < r" "128 * r < 4294967296" using R by (simp_all add: r_def)
  have base: "unat (128 * samplerate :: u32) = 128 * r"
    using r unat_mult_u32[of 128 samplerate] by (simp add: r_def)
  then show nz: "(128 * samplerate :: u32) \<noteq> 0"
    using r by (metis mult_is_0 nat_less_le unat_0 zero_neq_numeral)
  show un: "unat (128 * samplerate div 1000 :: u32) = 128 * unat samplerate div 1000"
    using base by (simp add: unat_div r_def)
  then have un': "unat (128 * samplerate div 1000 :: u32) = n" by (simp add: n_def r_def)
  have nb: "n * 1000 \<le> 128 * r" by (simp add: n_def)
  then have n_lt: "n < 4294968" using r by simp
  have c: "unat (scast (clock mode * 1000) :: u64) = p * 1000"
    unfolding p_def by (rule unat_scast_mult_1000[OF P])
  have "p * 1000 * n \<le> 2147483 * 1000 * 4294968"
    using p n_lt by (intro mult_le_mono) simp_all
  then have pb: "p * 1000 * n < 18446744073709551616" by simp
  have t: "unat ((scast (clock mode * 1000) :: u64) * ucast (128 * samplerate div 1000 :: u32)) =
      p * 1000 * n"
    using pb c un' by (simp add: unat_mult_u64 unat_ucast_u32_u64)
  have q: "unat ((scast (clock mode * 1000) :: u64) * ucast (128 * samplerate div 1000 :: u32)
            div ucast (128 * samplerate :: u32)) = p * 1000 * n div (128 * r)"
    using t base by (simp add: unat_div unat_ucast_u32_u64)
  have "p * 1000 * n \<le> p * (128 * r)" using nb by simp
  then have "p * 1000 * n div (128 * r) \<le> p * (128 * r) div (128 * r)"
    by (rule div_le_mono)
  also have "\<dots> = p" using r by simp
  finally have small: "p * 1000 * n div (128 * r) < 4294967296" using p by simp
  have "unat (ucast ((scast (clock mode * 1000) :: u64) * ucast (128 * samplerate div 1000 :: u32)
            div ucast (128 * samplerate :: u32)) :: u32) =
        take_bit 32 (p * 1000 * n div (128 * r))"
    using q by (simp add: unsigned_ucast_eq)
  also have "\<dots> = p * 1000 * n div (128 * r)"
    using small by (simp add: take_bit_nat_eq_self)
  finally show "unat (ucast ((scast (clock mode * 1000) :: u64) * ucast (128 * samplerate div 1000 :: u32)
            div ucast (128 * samplerate :: u32)) :: u32) =
         nat (sint (clock mode)) * 1000 * (128 * unat samplerate div 1000) div (128 * unat samplerate)"
    by (simp add: p_def n_def r_def)
qed

lemma audio_prepare_1080p60_48khz:
  "vc4_hdmi_audio_prepare example_regs_h example_infoframe_regs_h rba_216mhz_48khz
      status_idle_then_active sink_deep_colour 216000000 mode_1080p60 48000
      True 0x84 (Some audio_infoframe_packed) (\<lambda>r. 0, infoframe_hw_enabled) =
    Some (Inr ((\<lambda>r. 0)(HDMI_MAI_SMP := 1152000, HDMI_CRP_CFG := 16783360,
                 HDMI_CTS_0 := 148500, HDMI_CTS_1 := 148500),
               infoframe_hw_audio_written))"
proof -
  have can: "vc4_hdmi_audio_can_stream sink_deep_colour"
    by (simp add: vc4_hdmi_audio_can_stream_def sink_deep_colour_def)
  have cts: "vc4_hdmi_set_n_cts example_regs_h mode_1080p60 48000
      (vc4_hdmi_audio_set_mai_clock example_regs_h rba_216mhz_48khz 216000000 48000 (\<lambda>r. 0)) =
    Some ((\<lambda>r. 0)(HDMI_MAI_SMP := 1152000, HDMI_CRP_CFG := 16783360,
                 HDMI_CTS_0 := 148500, HDMI_CTS_1 := 148500))"
    by (simp add: vc4_hdmi_audio_set_mai_clock_def vc4_hdmi_set_n_cts_def Let_def
        rba_216mhz_48khz_def example_regs_h_def mode_1080p60_def VC4_SET_FIELD_def
        VC4_MASK_def BIT_def mask_eq_exp_minus_1)
  have frame: "vc4_hdmi_set_audio_infoframe example_infoframe_regs_h status_idle_then_active
      True 0x84 (Some audio_infoframe_packed) infoframe_hw_enabled =
    Some infoframe_hw_audio_written"
    unfolding vc4_hdmi_set_audio_infoframe_def if_True
    by (rule write_audio_infoframe_example)
  show ?thesis
    unfolding vc4_hdmi_audio_prepare_def Let_def prod.case
    by (simp only: can cts frame not_True_eq_False if_False option.case)
qed

lemma exact_ratio_is_best:
  "spec_best_rational_approximation 216000000 48000 16777215 256 (4500, 1)"
  by (simp add: spec_best_rational_approximation_def)

lemma not_best_6144:
  "\<not> (\<exists>d. spec_best_rational_approximation 216000000 48000 16777215 256 (6144, d))"
proof
  assume "\<exists>d. spec_best_rational_approximation 216000000 48000 16777215 256 (6144, d)"
  then obtain d where d: "1 \<le> d" "d \<le> 256"
    and best: "\<forall>n' \<in> {0..16777215}. \<forall>d' \<in> {1..256}.
           \<bar>int 216000000 * int d - int 6144 * int 48000\<bar> * int d' \<le>
           \<bar>int 216000000 * int d' - int n' * int 48000\<bar> * int d"
    by (auto simp: spec_best_rational_approximation_def)
  have "(4500 :: nat) \<in> {0..16777215}" "(1 :: nat) \<in> {1..256}" by simp_all
  with best have "\<bar>int 216000000 * int d - int 6144 * int 48000\<bar> * int 1 \<le>
           \<bar>int 216000000 * int 1 - int 4500 * int 48000\<bar> * int d"
    by blast
  then have "int 216000000 * int d = int 6144 * int 48000" by simp
  then have "375 * d = 512" by simp
  then show False by presburger
qed

text \<open>
  Claim C9 as stated fails. With a state-machine clock of 216,000,000 Hz, a sample rate of
  48,000 Hz and a mode clock of 148,500 kHz, the clock-recovery register receives N = 6144
  and the CTS registers receive 148,500. The ratio 216,000,000 : 48,000 is exactly
  4500 : 1, which is within the field widths, so a best rational approximation has a
  numerator that is a multiple of 4500, and 6144 is none; and with N = 4500 the stated
  formula would give 108,764, not the programmed CTS. What the rational approximation
  yields goes to the MAI sample-clock register instead.
\<close>

theorem clock_recovery_n_not_rational_approximation_counterexample:
  "vc4_hdmi_audio_prepare example_regs_h example_infoframe_regs_h rba_216mhz_48khz
      status_idle_then_active sink_deep_colour 216000000 mode_1080p60 48000
      True 0x84 (Some audio_infoframe_packed) (\<lambda>r. 0, infoframe_hw_enabled) =
    Some (Inr ((\<lambda>r. 0)(HDMI_MAI_SMP := 1152000, HDMI_CRP_CFG := 16783360,
                 HDMI_CTS_0 := 148500, HDMI_CTS_1 := 148500),
               infoframe_hw_audio_written)) \<and>
   (16783360 :: u32) AND VC4_HDMI_CRP_CFG_N_MASK example_regs_h = 6144 \<and>
   drop_bit (VC4_HD_MAI_SMP_N_SHIFT example_regs_h)
     ((1152000 :: u32) AND VC4_HD_MAI_SMP_N_MASK example_regs_h) = 4500 \<and>
   spec_best_rational_approximation 216000000 48000 16777215 256 (4500, 1) \<and>
   \<not> (\<exists>d. spec_best_rational_approximation 216000000 48000 16777215 256 (6144, d)) \<and>
   (148500000 * 4500 div (128 * 48000) :: nat) = 108764 \<and>
   (148500000 * 6144 div (128 * 48000) :: nat) = 148500"
  using audio_prepare_1080p60_48khz exact_ratio_is_best not_best_6144
  by (simp add: example_regs_h_def VC4_MASK_def mask_eq_exp_minus_1)

text \<open>
  Claim C9, amended. For every audio prepare that returns 0, with a sample rate R whose
  product with 128 fits 32 bits and a mode clock P in kHz whose product with 1000 fits an
  \<open>int\<close>: the sink is HDMI; the clock-recovery N written to \<open>HDMI_CRP_CFG\<close> is 128 R over
  1000, rounded down; both CTS registers hold P times 1000 times N over 128 R, rounded
  down, exactly; and the pair that the rational best approximation of the clock rate and
  R returns, within the field widths, is written to the MAI sample-clock register
  \<open>HDMI_MAI_SMP\<close>. The state of the packet RAM that the call leaves is the one that the
  write of the audio infoframe at its end leaves.
\<close>

theorem audio_prepare_n_and_cts:
  assumes ok: "vc4_hdmi_audio_prepare k ik rba status display audio_clock_rate mode sample_rate
      packet_ram_enabled cea_type cea_packed (regs, hw) = Some (Inr (regs', hw'))"
    and P: "0 \<le> sint (clock mode)" "sint (clock mode) \<le> 2147483"
    and R: "128 * unat sample_rate < 4294967296"
  shows "is_hdmi display \<and>
    (let N = 128 * unat sample_rate div 1000 in
       regs' HDMI_CRP_CFG =
         VC4_HDMI_CRP_CFG_EXTERNAL_CTS_EN k OR
         VC4_SET_FIELD (of_nat N) (VC4_HDMI_CRP_CFG_N_SHIFT k) (VC4_HDMI_CRP_CFG_N_MASK k) \<and>
       unat (regs' HDMI_CTS_0) =
         nat (sint (clock mode)) * 1000 * N div (128 * unat sample_rate) \<and>
       regs' HDMI_CTS_1 = regs' HDMI_CTS_0) \<and>
    (let (n, m) = rba (ucast (ucast audio_clock_rate :: u32)) (ucast sample_rate)
                    (ucast (drop_bit (VC4_HD_MAI_SMP_N_SHIFT k) (VC4_HD_MAI_SMP_N_MASK k)))
                    (ucast (drop_bit (VC4_HD_MAI_SMP_M_SHIFT k) (VC4_HD_MAI_SMP_M_MASK k) + 1))
     in regs' HDMI_MAI_SMP =
          VC4_SET_FIELD (ucast n) (VC4_HD_MAI_SMP_N_SHIFT k) (VC4_HD_MAI_SMP_N_MASK k) OR
          VC4_SET_FIELD (ucast (m - 1)) (VC4_HD_MAI_SMP_M_SHIFT k) (VC4_HD_MAI_SMP_M_MASK k)) \<and>
    vc4_hdmi_set_audio_infoframe ik status packet_ram_enabled cea_type cea_packed hw = Some hw'"
proof -
  from ok have hdmi: "is_hdmi display"
    by (auto simp: vc4_hdmi_audio_prepare_def vc4_hdmi_audio_can_stream_def split: if_splits)
  define regs1 where
    "regs1 = vc4_hdmi_audio_set_mai_clock k rba audio_clock_rate sample_rate regs"
  from ok hdmi have cts: "vc4_hdmi_set_n_cts k mode sample_rate regs1 = Some regs'"
    and frame: "vc4_hdmi_set_audio_infoframe ik status packet_ram_enabled cea_type cea_packed hw =
      Some hw'"
    by (auto simp: vc4_hdmi_audio_prepare_def vc4_hdmi_audio_can_stream_def Let_def regs1_def
        split: option.splits)
  then have nz: "(128 * sample_rate :: u32) \<noteq> 0"
    by (auto simp: vc4_hdmi_set_n_cts_def Let_def split: if_splits)
  then have "sample_rate \<noteq> 0" by auto
  then have pos: "0 < unat sample_rate" by (simp add: unat_gt_0)
  note v = n_cts_values[OF P pos R]
  define n where "n = (128 * sample_rate div 1000 :: u32)"
  define cts where "cts = (ucast ((scast (clock mode * 1000) :: u64) * ucast n
            div ucast (128 * sample_rate :: u32)) :: u32)"
  from cts nz have regs': "regs' = regs1
      (HDMI_CRP_CFG := VC4_HDMI_CRP_CFG_EXTERNAL_CTS_EN k OR
          VC4_SET_FIELD n (VC4_HDMI_CRP_CFG_N_SHIFT k) (VC4_HDMI_CRP_CFG_N_MASK k),
       HDMI_CTS_0 := cts, HDMI_CTS_1 := cts)"
    by (simp add: vc4_hdmi_set_n_cts_def Let_def n_def cts_def)
  have n_nat: "n = of_nat (128 * unat sample_rate div 1000)"
    using v(1) unfolding n_def by (metis of_nat_unat ucast_id)
  have cts_nat: "unat cts =
      nat (sint (clock mode)) * 1000 * (128 * unat sample_rate div 1000) div
        (128 * unat sample_rate)"
    unfolding cts_def n_def by (rule v(3))
  have mai: "regs' HDMI_MAI_SMP = regs1 HDMI_MAI_SMP"
    and crp: "regs' HDMI_CRP_CFG = VC4_HDMI_CRP_CFG_EXTERNAL_CTS_EN k OR
          VC4_SET_FIELD n (VC4_HDMI_CRP_CFG_N_SHIFT k) (VC4_HDMI_CRP_CFG_N_MASK k)"
    and c0: "regs' HDMI_CTS_0 = cts" and c1: "regs' HDMI_CTS_1 = cts"
    by (simp_all add: regs')
  have mai1: "(let (n, m) = rba (ucast (ucast audio_clock_rate :: u32)) (ucast sample_rate)
                    (ucast (drop_bit (VC4_HD_MAI_SMP_N_SHIFT k) (VC4_HD_MAI_SMP_N_MASK k)))
                    (ucast (drop_bit (VC4_HD_MAI_SMP_M_SHIFT k) (VC4_HD_MAI_SMP_M_MASK k) + 1))
     in regs1 HDMI_MAI_SMP =
          VC4_SET_FIELD (ucast n) (VC4_HD_MAI_SMP_N_SHIFT k) (VC4_HD_MAI_SMP_N_MASK k) OR
          VC4_SET_FIELD (ucast (m - 1)) (VC4_HD_MAI_SMP_M_SHIFT k) (VC4_HD_MAI_SMP_M_MASK k))"
    by (simp add: regs1_def vc4_hdmi_audio_set_mai_clock_def Let_def split_def)
  show ?thesis
  proof (intro conjI)
    show "is_hdmi display" by (rule hdmi)
    show "let N = 128 * unat sample_rate div 1000 in
       regs' HDMI_CRP_CFG =
         VC4_HDMI_CRP_CFG_EXTERNAL_CTS_EN k OR
         VC4_SET_FIELD (of_nat N) (VC4_HDMI_CRP_CFG_N_SHIFT k) (VC4_HDMI_CRP_CFG_N_MASK k) \<and>
       unat (regs' HDMI_CTS_0) =
         nat (sint (clock mode)) * 1000 * N div (128 * unat sample_rate) \<and>
       regs' HDMI_CTS_1 = regs' HDMI_CTS_0"
      unfolding Let_def
    proof (intro conjI)
      show "regs' HDMI_CRP_CFG =
         VC4_HDMI_CRP_CFG_EXTERNAL_CTS_EN k OR
         VC4_SET_FIELD (of_nat (128 * unat sample_rate div 1000))
           (VC4_HDMI_CRP_CFG_N_SHIFT k) (VC4_HDMI_CRP_CFG_N_MASK k)"
        unfolding crp n_nat ..
      show "unat (regs' HDMI_CTS_0) =
         nat (sint (clock mode)) * 1000 * (128 * unat sample_rate div 1000) div
           (128 * unat sample_rate)"
        unfolding c0 by (rule cts_nat)
      show "regs' HDMI_CTS_1 = regs' HDMI_CTS_0"
        unfolding c0 c1 ..
    qed
    show "let (n, m) = rba (ucast (ucast audio_clock_rate :: u32)) (ucast sample_rate)
                    (ucast (drop_bit (VC4_HD_MAI_SMP_N_SHIFT k) (VC4_HD_MAI_SMP_N_MASK k)))
                    (ucast (drop_bit (VC4_HD_MAI_SMP_M_SHIFT k) (VC4_HD_MAI_SMP_M_MASK k) + 1))
     in regs' HDMI_MAI_SMP =
          VC4_SET_FIELD (ucast n) (VC4_HD_MAI_SMP_N_SHIFT k) (VC4_HD_MAI_SMP_N_MASK k) OR
          VC4_SET_FIELD (ucast (m - 1)) (VC4_HD_MAI_SMP_M_SHIFT k) (VC4_HD_MAI_SMP_M_MASK k)"
      unfolding mai by (rule mai1)
    show "vc4_hdmi_set_audio_infoframe ik status packet_ram_enabled cea_type cea_packed hw =
      Some hw'"
      by (rule frame)
  qed
qed

theorem audio_prepare_n_and_cts_witness:
  "vc4_hdmi_audio_prepare example_regs_h example_infoframe_regs_h rba_216mhz_48khz
      status_idle_then_active sink_deep_colour 216000000 mode_1080p60 48000
      True 0x84 (Some audio_infoframe_packed) (\<lambda>r. 0, infoframe_hw_enabled) =
    Some (Inr ((\<lambda>r. 0)(HDMI_MAI_SMP := 1152000, HDMI_CRP_CFG := 16783360,
                 HDMI_CTS_0 := 148500, HDMI_CTS_1 := 148500),
               infoframe_hw_audio_written)) \<and>
   0 \<le> sint (clock mode_1080p60) \<and> sint (clock mode_1080p60) \<le> 2147483 \<and>
   128 * unat (48000 :: u32) < 4294967296 \<and>
   is_hdmi sink_deep_colour \<and>
   128 * unat (48000 :: u32) div 1000 = 6144 \<and>
   unat (148500 :: u32) =
     nat (sint (clock mode_1080p60)) * 1000 * (128 * unat (48000 :: u32) div 1000) div
       (128 * unat (48000 :: u32)) \<and>
   vc4_hdmi_set_audio_infoframe example_infoframe_regs_h status_idle_then_active
      True 0x84 (Some audio_infoframe_packed) infoframe_hw_enabled =
    Some infoframe_hw_audio_written"
proof -
  have P: "0 \<le> sint (clock mode_1080p60)" "sint (clock mode_1080p60) \<le> 2147483"
    by (simp_all add: mode_1080p60_def)
  have R: "128 * unat (48000 :: u32) < 4294967296" by simp
  have e: "((\<lambda>r. 0)(HDMI_MAI_SMP := 1152000, HDMI_CRP_CFG := 16783360,
                 HDMI_CTS_0 := 148500, HDMI_CTS_1 := 148500)) HDMI_CTS_0 = (148500 :: u32)"
    by simp
  note T = audio_prepare_n_and_cts[OF audio_prepare_1080p60_48khz P R, unfolded Let_def e]
  have N: "128 * unat (48000 :: u32) div 1000 = 6144" by simp
  from T have "is_hdmi sink_deep_colour" by blast
  moreover from T have "unat (148500 :: u32) =
     nat (sint (clock mode_1080p60)) * 1000 * (128 * unat (48000 :: u32) div 1000) div
       (128 * unat (48000 :: u32))"
    by blast
  moreover from T have "vc4_hdmi_set_audio_infoframe example_infoframe_regs_h
      status_idle_then_active True 0x84 (Some audio_infoframe_packed) infoframe_hw_enabled =
    Some infoframe_hw_audio_written"
    by blast
  ultimately show ?thesis
    using audio_prepare_1080p60_48khz P R N by blast
qed

end
